theory Spec2Isabelle
  imports Main "HOL-Library.Char_ord" "HOL-Library.List_Lexorder"
begin

section \<open>ConvertController: data model\<close>

text \<open>
  A shallow embedding of \<^verbatim>\<open>packages/core/src/controllers/ConvertController.ts\<close>.
  The controller is one mutable record (\<^verbatim>\<open>state\<close>) and a set of procedures over it.
  A procedure becomes a function from the world before the call to the result of the call
  and the world after it; a \<^verbatim>\<open>throw\<close> or a rejected promise is the result \<open>Inl\<close>.
  An \<^verbatim>\<open>async\<close> procedure is modelled run to completion: the world returned is the one
  at the moment its promise settles, with no other procedure interleaved. Where a
  procedure calls an \<^verbatim>\<open>async\<close> one without awaiting it, the call is recorded as
  floating and runs later (\<open>settle\<close>). \<^verbatim>\<open>subscribe\<close> and \<^verbatim>\<open>subscribeKey\<close> only
  hand the state to the store's own functions and are left out.
\<close>

subsection \<open>JavaScript values\<close>

text \<open>
  The type \<^verbatim>\<open>`0x${string}`\<close>: the strings that start with \<^verbatim>\<open>0x\<close>. \<open>Hex s\<close> stands
  for the string \<^verbatim>\<open>"0x" + s\<close>.
\<close>

datatype hex = Hex string

fun hexString :: "hex \<Rightarrow> string" where
  "hexString (Hex s) = ''0x'' @ s"

text \<open>
  What a \<^verbatim>\<open>throw\<close> or a rejected promise carries: \<^verbatim>\<open>new Error(message)\<close>, an error
  object with the optional field \<^verbatim>\<open>shortMessage\<close> (class \<^verbatim>\<open>TransactionError\<close>: its
  message and its short message), the \<^verbatim>\<open>SyntaxError\<close> of \<^verbatim>\<open>BigInt\<close> on a string
  that is no integer, or a value that is no object (\<^verbatim>\<open>null\<close>, \<^verbatim>\<open>undefined\<close>).
\<close>

datatype thrown =
    Error string
  | TransactionError "string option" "string option"
  | SyntaxError string
  | NonObject

text \<open>\<^verbatim>\<open>error?.shortMessage\<close>\<close>

fun shortMessageOf :: "thrown \<Rightarrow> string option" where
  "shortMessageOf (TransactionError m sm) = sm"
| "shortMessageOf (Error m) = None"
| "shortMessageOf (SyntaxError m) = None"
| "shortMessageOf NonObject = None"

text \<open>The settled state of a promise returned by a collaborator.\<close>

datatype 'a outcome = Resolves 'a | Rejects thrown

text \<open>Truthiness of a string and of a \<^verbatim>\<open>string | undefined\<close>; \<^verbatim>\<open>x || d\<close> on the latter.\<close>

definition truthyS :: "string \<Rightarrow> bool" where
  "truthyS s = (s \<noteq> [])"

definition truthyO :: "string option \<Rightarrow> bool" where
  "truthyO x = (case x of None \<Rightarrow> False | Some s \<Rightarrow> truthyS s)"

definition orElse :: "string option \<Rightarrow> string \<Rightarrow> string" where
  "orElse x d = (case x of None \<Rightarrow> d | Some s \<Rightarrow> if truthyS s then s else d)"

text \<open>
  The primitives of the type \<^verbatim>\<open>number\<close> (IEEE doubles) that the controller uses. They
  are not code of this repository, and the theorems below hold for every interpretation
  of them: \<open>'n\<close> is the type of numbers, \<open>Number\<close> converts a \<^verbatim>\<open>bigint\<close> (and gives
  the integer literals of the source), \<open>truthy\<close> is \<^verbatim>\<open>ToBoolean\<close> on a number,
  \<open>strictEq\<close> is \<^verbatim>\<open>===\<close>, \<open>BigInt\<close> is \<^verbatim>\<open>BigInt\<close> on a string (\<open>None\<close> where it
  throws a \<^verbatim>\<open>SyntaxError\<close>).
\<close>

record 'n js =
  parseFloat :: "string \<Rightarrow> 'n"
  Number :: "int \<Rightarrow> 'n"
  truthy :: "'n \<Rightarrow> bool"
  strictEq :: "'n \<Rightarrow> 'n \<Rightarrow> bool"
  lessThan :: "'n \<Rightarrow> 'n \<Rightarrow> bool"
  plus_n :: "'n \<Rightarrow> 'n \<Rightarrow> 'n"
  minus_n :: "'n \<Rightarrow> 'n \<Rightarrow> 'n"
  times_n :: "'n \<Rightarrow> 'n \<Rightarrow> 'n"
  divide_n :: "'n \<Rightarrow> 'n \<Rightarrow> 'n"
  Math_round :: "'n \<Rightarrow> 'n"
  toString :: "'n \<Rightarrow> string"
  BigInt :: "string \<Rightarrow> int option"

subsection \<open>Types of the controller\<close>

record TransactionParams =
  tx_data :: hex
  tx_to :: hex
  tx_gas :: int
  tx_gasPrice :: int
  tx_value :: int

record 'n TokenInfo =
  address :: hex
  symbol :: string
  name :: string
  decimals :: 'n
  logoURI :: string
  domainVersion :: "string option"
  eip2612 :: "bool option"
  isFoT :: "bool option"
  tags :: "string list option"

record 'n TokenInfoWithBalance = "'n TokenInfo" +
  balance :: string
  price :: string

text \<open>
  A \<^verbatim>\<open>Record<string, T>\<close> that the code enumerates (\<^verbatim>\<open>Object.entries\<close>) is the list of
  its entries in insertion order; \<open>tokensPriceMap\<close>, which is only read and written by key,
  is a map.
\<close>

record 'n ConvertControllerState =
  initialized :: bool
  loadingPrices :: bool
  loading :: "bool option"
  approvalTransaction :: "TransactionParams option"
  convertLoading :: bool
  convertTransaction :: "TransactionParams option"
  transactionLoading :: "bool option"
  transactionError :: "string option"
  sourceToken :: "'n TokenInfo option"
  sourceTokenAmount :: string
  sourceTokenPriceInUSD :: 'n
  toToken :: "'n TokenInfo option"
  toTokenAmount :: string
  toTokenPriceInUSD :: 'n
  networkPrice :: string
  networkAddress :: "string option"
  inputError :: "string option"
  slippage :: string
  tokens :: "(string \<times> 'n TokenInfo) list option"
  popularTokens :: "(string \<times> 'n TokenInfo) list option"
  foundTokens :: "'n TokenInfo list option"
  myTokensWithBalance :: "(string \<times> 'n TokenInfoWithBalance) list option"
  tokensPriceMap :: "string \<rightharpoonup> string"
  gasFee :: int
  gasPriceInUSD :: "'n option"
  priceImpact :: "'n option"
  maxSlippage :: "'n option"

definition CURRENT_CHAIN_ADDRESS :: string where
  "CURRENT_CHAIN_ADDRESS = ''0xeeeeeeeeeeeeeeeeeeeeeeeeeeeeeeeeeeeeeeee''"

definition DEFAULT_SLIPPAGE_TOLERANCE :: string where
  "DEFAULT_SLIPPAGE_TOLERANCE = ''0.5''"

text \<open>The record that \<^verbatim>\<open>proxy<ConvertControllerState>({...})\<close> starts from.\<close>

definition initialState :: "'n js \<Rightarrow> 'n ConvertControllerState" where
  "initialState J =
     \<lparr> initialized = False,
       loadingPrices = False,
       loading = Some False,
       approvalTransaction = None,
       convertLoading = False,
       convertTransaction = None,
       transactionLoading = Some False,
       transactionError = None,
       sourceToken = None,
       sourceTokenAmount = '''',
       sourceTokenPriceInUSD = Number J 0,
       toToken = None,
       toTokenAmount = '''',
       toTokenPriceInUSD = Number J 0,
       networkPrice = ''0'',
       networkAddress = Some CURRENT_CHAIN_ADDRESS,
       inputError = None,
       slippage = DEFAULT_SLIPPAGE_TOLERANCE,
       tokens = None,
       popularTokens = None,
       foundTokens = None,
       myTokensWithBalance = None,
       tokensPriceMap = Map.empty,
       gasFee = 0,
       gasPriceInUSD = Some (Number J 0),
       priceImpact = None,
       maxSlippage = None \<rparr>"

subsection \<open>Collaborators\<close>

text \<open>The arguments of the calls to \<^verbatim>\<open>ConvertApiController\<close> and \<^verbatim>\<open>ConnectionController\<close>.\<close>

record 'n AllowanceArgs =
  al_fromAddress :: string
  al_sourceTokenAddress :: hex
  al_sourceTokenAmount :: string
  al_sourceTokenDecimals :: 'n

record 'n ConvertDataArgs =
  cd_fromAddress :: string
  cd_sourceTokenAddress :: hex
  cd_sourceTokenAmount :: string
  cd_toTokenAddress :: hex
  cd_decimals :: 'n

record EstimateGasArgs =
  eg_address :: string
  eg_to :: hex
  eg_data :: hex

record SendTransactionArgs =
  st_address :: string
  st_to :: hex
  st_data :: hex
  st_gas :: "int option"
  st_gasPrice :: int
  st_value :: int

text \<open>
  What the price API answers for an approval and for a convert: the fields the controller
  reads. The numeric fields arrive as strings and go through \<^verbatim>\<open>BigInt\<close>.
\<close>

record ApprovalData =
  ap_to :: hex
  ap_data :: hex
  ap_gasPrice :: string
  ap_value :: string

record ConvertData =
  cv_data :: hex
  cv_to :: hex
  cv_gas :: string
  cv_gasPrice :: string
  cv_value :: string

datatype 'n request =
    GetTokenList
  | GetTokenPriceWithAddresses "string list"
  | GetMyTokensWithBalance
  | GetGasPrice
  | CheckConvertAllowance "'n AllowanceArgs"
  | GetConvertApprovalData hex
  | GetConvertData "'n ConvertDataArgs"
  | GetEstimatedGas EstimateGasArgs
  | SendTransaction SendTransactionArgs

text \<open>
  Everything the controller reads from outside: \<^verbatim>\<open>AccountController.state.address\<close>,
  \<^verbatim>\<open>ConstantsUtil.POPULAR_TOKENS\<close>, and for each call to a collaborator how its promise
  settles, as a function of the arguments. \<open>api_getTokenList\<close> is \<^verbatim>\<open>res.tokens\<close>,
  \<open>api_getGasPrice\<close> is \<^verbatim>\<open>res.instant.maxFeePerGas\<close>.
\<close>

record 'n env =
  account_address :: "string option"
  POPULAR_TOKENS :: "string list"
  api_getTokenList :: "(string \<times> 'n TokenInfo) list outcome"
  api_getTokenPriceWithAddresses :: "string list \<Rightarrow> (string \<rightharpoonup> string) outcome"
  api_getMyTokensWithBalance :: "(string \<times> 'n TokenInfoWithBalance) list option outcome"
  api_getGasPrice :: "string outcome"
  api_checkConvertAllowance :: "'n AllowanceArgs \<Rightarrow> bool outcome"
  api_getConvertApprovalData :: "hex \<Rightarrow> ApprovalData outcome"
  api_getConvertData :: "'n ConvertDataArgs \<Rightarrow> ConvertData outcome"
  conn_getEstimatedGas :: "EstimateGasArgs \<Rightarrow> int outcome"
  conn_sendTransaction :: "SendTransactionArgs \<Rightarrow> string outcome"
  conn_formatUnits :: "int \<Rightarrow> 'n \<Rightarrow> string"

text \<open>
  A call to an \<^verbatim>\<open>async\<close> procedure whose promise the caller drops: the caller returns
  before the call has changed anything.
\<close>

datatype floating =
    SetTokenPriceToMap string
  | CheckToTokenValues string
  | CheckSourceTokenValues string string

text \<open>
  The world: the controller's state, the messages given to \<^verbatim>\<open>SnackController.showError\<close>,
  the views given to \<^verbatim>\<open>RouterController.replace\<close>, the number of \<^verbatim>\<open>resetState\<close> calls
  scheduled with \<^verbatim>\<open>setTimeout\<close>, the requests sent to the collaborators, and the calls
  left floating, each list in order of time.
\<close>

record 'n world =
  state :: "'n ConvertControllerState"
  snackErrors :: "string list"
  routerReplaced :: "string list"
  scheduledResets :: nat
  requests :: "'n request list"
  floatingCalls :: "floating list"

type_synonym ('n, 'a) proc = "'n world \<Rightarrow> (thrown + 'a) \<times> 'n world"

definition initialWorld :: "'n js \<Rightarrow> 'n world" where
  "initialWorld J =
     \<lparr> state = initialState J, snackErrors = [], routerReplaced = [],
       scheduledResets = 0, requests = [], floatingCalls = [] \<rparr>"

text \<open>Sequencing: the second procedure runs if the first did not throw.\<close>

definition andThen :: "('n, 'a) proc \<Rightarrow> ('a \<Rightarrow> ('n, 'b) proc) \<Rightarrow> ('n, 'b) proc" where
  "andThen m f = (\<lambda>w. case m w of (Inl e, w') \<Rightarrow> (Inl e, w') | (Inr a, w') \<Rightarrow> f a w')"

definition return :: "'a \<Rightarrow> ('n, 'a) proc" where
  "return a = (\<lambda>w. (Inr a, w))"

definition throw :: "thrown \<Rightarrow> ('n, 'a) proc" where
  "throw e = (\<lambda>w. (Inl e, w))"

text \<open>An assignment to fields of \<^verbatim>\<open>state\<close>.\<close>

definition assign :: "('n ConvertControllerState \<Rightarrow> 'n ConvertControllerState) \<Rightarrow> ('n, unit) proc" where
  "assign f = (\<lambda>w. (Inr (), w\<lparr>state := f (state w)\<rparr>))"

text \<open>\<^verbatim>\<open>await\<close> of a collaborator's promise: the request is recorded, a rejection throws.\<close>

definition await :: "'n request \<Rightarrow> 'a outcome \<Rightarrow> ('n, 'a) proc" where
  "await r out = (\<lambda>w.
     let w' = w\<lparr>requests := requests w @ [r]\<rparr>
     in case out of Resolves v \<Rightarrow> (Inr v, w') | Rejects e \<Rightarrow> (Inl e, w'))"

definition getState :: "('n, 'n ConvertControllerState) proc" where
  "getState = (\<lambda>w. (Inr (state w), w))"

text \<open>\<^verbatim>\<open>try { body } catch (err) { handler }\<close>\<close>

definition tryCatch :: "('n, 'a) proc \<Rightarrow> (thrown \<Rightarrow> ('n, 'a) proc) \<Rightarrow> ('n, 'a) proc" where
  "tryCatch body handler =
     (\<lambda>w. case body w of (Inl e, w') \<Rightarrow> handler e w' | (Inr a, w') \<Rightarrow> (Inr a, w'))"

text \<open>
  \<^verbatim>\<open>SnackController.showError\<close>, \<^verbatim>\<open>RouterController.replace\<close>,
  \<^verbatim>\<open>setTimeout(() => { this.resetState() }, 1000)\<close>, and a call whose promise is dropped.
\<close>

definition showError :: "string \<Rightarrow> ('n, unit) proc" where
  "showError msg = (\<lambda>w. (Inr (), w\<lparr>snackErrors := snackErrors w @ [msg]\<rparr>))"

definition routerReplace :: "string \<Rightarrow> ('n, unit) proc" where
  "routerReplace view = (\<lambda>w. (Inr (), w\<lparr>routerReplaced := routerReplaced w @ [view]\<rparr>))"

definition scheduleResetState :: "('n, unit) proc" where
  "scheduleResetState = (\<lambda>w. (Inr (), w\<lparr>scheduledResets := Suc (scheduledResets w)\<rparr>))"

definition floatCall :: "floating \<Rightarrow> 'n world \<Rightarrow> 'n world" where
  "floatCall c w = w\<lparr>floatingCalls := floatingCalls w @ [c]\<rparr>"

text \<open>Truthiness of a \<^verbatim>\<open>number | undefined\<close>.\<close>

definition truthyN :: "'n js \<Rightarrow> 'n option \<Rightarrow> bool" where
  "truthyN J x = (case x of None \<Rightarrow> False | Some n \<Rightarrow> truthy J n)"

section \<open>ConvertController: the procedures\<close>

record 'n Params =
  fromAddress :: string
  sourceTokenAddress :: "hex option"
  toTokenAddress :: "hex option"
  toTokenAmountP :: string
  toTokenDecimals :: "'n option"
  sourceTokenAmountP :: string
  sourceTokenDecimals :: "'n option"

definition getParams :: "'n env \<Rightarrow> ('n, 'n Params) proc" where
  "getParams E = (\<lambda>w.
     case account_address E of
       None \<Rightarrow> throw (Error ''No address found to swap the tokens from.'') w
     | Some a \<Rightarrow>
         if \<not> truthyS a then throw (Error ''No address found to swap the tokens from.'') w
         else return
           \<lparr> fromAddress = a,
             sourceTokenAddress = map_option address (sourceToken (state w)),
             toTokenAddress = map_option address (toToken (state w)),
             toTokenAmountP = toTokenAmount (state w),
             toTokenDecimals = map_option decimals (toToken (state w)),
             sourceTokenAmountP = sourceTokenAmount (state w),
             sourceTokenDecimals = map_option decimals (sourceToken (state w)) \<rparr> w)"

text \<open>
  \<open>setSourceToken\<close> does not await \<open>setTokenPriceToMap\<close>: the call is left floating.
\<close>

definition setSourceToken :: "'n TokenInfo option \<Rightarrow> 'n world \<Rightarrow> 'n world" where
  "setSourceToken t w =
     (case t of
        None \<Rightarrow> w
      | Some tok \<Rightarrow>
          let w1 = w\<lparr>state := (state w)\<lparr>sourceToken := Some tok\<rparr>\<rparr>;
              a = hexString (address tok)
          in if truthyS a \<and> \<not> truthyO (tokensPriceMap (state w1) a)
             then floatCall (SetTokenPriceToMap a) w1
             else w1)"

definition setSourceTokenAmount :: "'n env \<Rightarrow> string \<Rightarrow> ('n, unit) proc" where
  "setSourceTokenAmount E amount =
     andThen (getParams E) (\<lambda>p.
     andThen (assign (\<lambda>s. s\<lparr>sourceTokenAmount := amount\<rparr>)) (\<lambda>_.
       case sourceTokenAddress p of
         None \<Rightarrow> throw (Error ''No source token address found'')
       | Some a \<Rightarrow>
           if \<not> truthyS (hexString a) then throw (Error ''No source token address found'')
           else (\<lambda>w. (Inr (), floatCall (CheckSourceTokenValues (hexString a) amount) w))))"

definition setToTokenAmount :: "string \<Rightarrow> 'n ConvertControllerState \<Rightarrow> 'n ConvertControllerState" where
  "setToTokenAmount amount s = s\<lparr>toTokenAmount := amount\<rparr>"

definition setToToken :: "'n js \<Rightarrow> 'n TokenInfo option \<Rightarrow> 'n world \<Rightarrow> 'n world" where
  "setToToken J t w =
     (case t of
        None \<Rightarrow> w
      | Some tok \<Rightarrow>
          let a = hexString (address tok)
          in if \<not> truthyS a then w
             else
               let w1 = w\<lparr>state := (state w)\<lparr>toToken := Some tok\<rparr>\<rparr>
               in if truthyO (tokensPriceMap (state w1) a)
                  then w1\<lparr>state := (state w1)
                         \<lparr>toTokenPriceInUSD := parseFloat J (orElse (tokensPriceMap (state w1) a) ''0'')\<rparr>\<rparr>
                  else floatCall (CheckToTokenValues a) w1)"

definition setLoading :: "bool \<Rightarrow> 'n ConvertControllerState \<Rightarrow> 'n ConvertControllerState" where
  "setLoading isLoading s = s\<lparr>loading := Some isLoading\<rparr>"

text \<open>\<^verbatim>\<open>{ ...state.toToken }\<close> is a copy: the same value.\<close>

definition switchTokens :: "'n js \<Rightarrow> 'n world \<Rightarrow> 'n world" where
  "switchTokens J w =
     (let newSourceToken = toToken (state w);
          newToToken = sourceToken (state w);
          w1 = setSourceToken newSourceToken w;
          w2 = setToToken J newToToken w1
      in w2\<lparr>state := (state w2)
              \<lparr> sourceTokenAmount := '''',
                toTokenAmount := '''' \<rparr>\<rparr>)"

definition clearFoundTokens :: "'n ConvertControllerState \<Rightarrow> 'n ConvertControllerState" where
  "clearFoundTokens s = s\<lparr>foundTokens := None\<rparr>"

definition clearTokens :: "'n ConvertControllerState \<Rightarrow> 'n ConvertControllerState" where
  "clearTokens s = s\<lparr>tokens := None\<rparr>"

definition resetState :: "'n js \<Rightarrow> 'n ConvertControllerState \<Rightarrow> 'n ConvertControllerState" where
  "resetState J s =
     s\<lparr> sourceToken := None,
        toToken := None,
        sourceTokenAmount := ''0'',
        toTokenAmount := ''0'',
        sourceTokenPriceInUSD := Number J 0,
        toTokenPriceInUSD := Number J 0,
        gasPriceInUSD := Some (Number J 0) \<rparr>"

definition clearMyTokens :: "'n ConvertControllerState \<Rightarrow> 'n ConvertControllerState" where
  "clearMyTokens s = s\<lparr>myTokensWithBalance := None\<rparr>"

definition clearError :: "'n ConvertControllerState \<Rightarrow> 'n ConvertControllerState" where
  "clearError s = s\<lparr>transactionError := None\<rparr>"

subsection \<open>Prices and token lists\<close>

definition setTokenPriceToMap :: "'n env \<Rightarrow> string \<Rightarrow> ('n, string) proc" where
  "setTokenPriceToMap E addr =
     andThen (await (GetTokenPriceWithAddresses [addr]) (api_getTokenPriceWithAddresses E [addr]))
       (\<lambda>prices.
          let price = orElse (prices addr) ''0''
          in andThen
               (assign (\<lambda>s.
                  let s1 = s\<lparr>tokensPriceMap := (tokensPriceMap s)(addr \<mapsto> price)\<rparr>
                  in if addr = CURRENT_CHAIN_ADDRESS then s1\<lparr>networkPrice := price\<rparr> else s1))
               (\<lambda>_. return price))"

definition getAddressPrice :: "'n js \<Rightarrow> 'n env \<Rightarrow> string \<Rightarrow> ('n, 'n) proc" where
  "getAddressPrice J E addr = (\<lambda>w.
     let existPrice = tokensPriceMap (state w) addr;
         fetched =
           andThen (await (GetTokenPriceWithAddresses [addr]) (api_getTokenPriceWithAddresses E [addr]))
             (\<lambda>prices.
                let price = orElse (prices addr) ''0''
                in andThen (assign (\<lambda>s. s\<lparr>tokensPriceMap := (tokensPriceMap s)(addr \<mapsto> price)\<rparr>))
                     (\<lambda>_. return (parseFloat J price)))
     in case existPrice of
          None \<Rightarrow> fetched w
        | Some p \<Rightarrow> if truthyS p then return (parseFloat J p) w else fetched w)"

definition getNetworkTokenPrice :: "'n env \<Rightarrow> ('n, unit) proc" where
  "getNetworkTokenPrice E =
     andThen
       (await (GetTokenPriceWithAddresses [CURRENT_CHAIN_ADDRESS])
          (api_getTokenPriceWithAddresses E [CURRENT_CHAIN_ADDRESS]))
       (\<lambda>prices.
          let price = orElse (prices CURRENT_CHAIN_ADDRESS) ''0''
          in assign (\<lambda>s. s\<lparr> tokensPriceMap := (tokensPriceMap s)(CURRENT_CHAIN_ADDRESS \<mapsto> price),
                             networkPrice := price \<rparr>))"

text \<open>
  \<^verbatim>\<open>Object.entries(res).reduce((prices, [tokenAddress, tokenInfo]) => ..., {})\<close>: a fold
  over the entries, from the empty object.
\<close>

definition getMyTokensWithBalance :: "'n env \<Rightarrow> ('n, unit) proc" where
  "getMyTokensWithBalance E =
     andThen (await GetMyTokensWithBalance (api_getMyTokensWithBalance E))
       (\<lambda>res. case res of
          None \<Rightarrow> return ()
        | Some r \<Rightarrow>
            assign (\<lambda>s. s\<lparr> tokensPriceMap :=
                               fold (\<lambda>(tokenAddress, tokenInfo) prices.
                                       prices(tokenAddress \<mapsto> price tokenInfo)) r Map.empty,
                             myTokensWithBalance := Some r \<rparr>))"

text \<open>
  \<open>popularTokens\<close>: the entries sorted by symbol (the sort of an array is stable), those
  with a popular symbol kept, in that order. The comparison of two symbols is the
  lexicographic order of their characters.
\<close>

definition getTokenList :: "'n env \<Rightarrow> ('n, (string \<times> 'n TokenInfo) list) proc" where
  "getTokenList E =
     andThen (await GetTokenList (api_getTokenList E))
       (\<lambda>res.
          andThen
            (assign (\<lambda>s. s\<lparr> tokens := Some res,
                               popularTokens :=
                                 Some (filter (\<lambda>(tokenAddress, tokenInfo).
                                                 symbol tokenInfo \<in> set (POPULAR_TOKENS E))
                                         (sort_key (\<lambda>(tokenAddress, tokenInfo). symbol tokenInfo) res)) \<rparr>))
            (\<lambda>_. return res))"

definition initializeState :: "'n env \<Rightarrow> ('n, unit) proc" where
  "initializeState E = (\<lambda>w.
     if \<not> initialized (state w)
     then andThen (getTokenList E) (\<lambda>_.
          andThen (getNetworkTokenPrice E) (\<lambda>_.
          andThen (getMyTokensWithBalance E) (\<lambda>_.
          assign (\<lambda>s. s\<lparr>initialized := True\<rparr>)))) w
     else return () w)"

text \<open>
  \<open>checkSourceTokenValues\<close>: the balance is read before the price is awaited.
\<close>

definition checkSourceTokenValues :: "'n js \<Rightarrow> 'n env \<Rightarrow> string \<Rightarrow> string \<Rightarrow> ('n, unit) proc" where
  "checkSourceTokenValues J E addr amount = (\<lambda>w.
     let balance =
           orElse (case myTokensWithBalance (state w) of
                     None \<Rightarrow> None
                   | Some m \<Rightarrow> map_option balance (map_of m addr)) ''0''
     in andThen (getAddressPrice J E addr)
          (\<lambda>price.
             let balancePriceInUSD = times_n J (parseFloat J balance) price;
                 amountPriceInUSD = times_n J (parseFloat J amount) price;
                 insufficientBalance = lessThan J balancePriceInUSD amountPriceInUSD
             in assign (\<lambda>s.
                  let s1 = s\<lparr> sourceTokenPriceInUSD := price,
                               inputError := (if insufficientBalance
                                              then Some ''Insufficient balance'' else None) \<rparr>
                  in if insufficientBalance
                     then s1\<lparr>toTokenAmount := ''0'', toTokenPriceInUSD := Number J 0\<rparr>
                     else s1)) w)"

definition checkToTokenValues :: "'n js \<Rightarrow> 'n env \<Rightarrow> string \<Rightarrow> ('n, unit) proc" where
  "checkToTokenValues J E addr =
     andThen (setTokenPriceToMap E addr)
       (\<lambda>price. assign (\<lambda>s. s\<lparr>toTokenPriceInUSD := parseFloat J price\<rparr>))"

text \<open>
  A floating call, run to completion. Nobody holds its promise, so a rejection is lost.
  In the source such a call reads the state and sends its request at once and writes when
  the answer arrives; here it does all of it when it runs. Within one procedure the two
  agree: between starting a call and returning, the callers only assign fields that the
  call does not read. The properties below that mention \<open>settle\<close> are about fields that
  no floating call writes, or writes in one way only.
\<close>

definition runFloating :: "'n js \<Rightarrow> 'n env \<Rightarrow> floating \<Rightarrow> 'n world \<Rightarrow> 'n world" where
  "runFloating J E c w =
     (case c of
        SetTokenPriceToMap a \<Rightarrow> snd (setTokenPriceToMap E a w)
      | CheckToTokenValues a \<Rightarrow> snd (checkToTokenValues J E a w)
      | CheckSourceTokenValues a amount \<Rightarrow> snd (checkSourceTokenValues J E a amount w))"

definition settle :: "'n js \<Rightarrow> 'n env \<Rightarrow> 'n world \<Rightarrow> 'n world" where
  "settle J E w = fold (runFloating J E) (floatingCalls w) (w\<lparr>floatingCalls := []\<rparr>)"

subsection \<open>Calculations\<close>

datatype PriceDifferenceDirection = up | down | none

definition calculatePriceDifference :: "'n js \<Rightarrow> 'n ConvertControllerState \<Rightarrow> 'n \<times> PriceDifferenceDirection" where
  "calculatePriceDifference J s =
     (let sourceTokenValue = times_n J (parseFloat J (sourceTokenAmount s)) (sourceTokenPriceInUSD s);
          toTokenValue = times_n J (parseFloat J (toTokenAmount s)) (toTokenPriceInUSD s)
      in if \<not> truthy J sourceTokenValue \<or> \<not> truthy J toTokenValue then (Number J 0, none)
         else
           let priceChange = minus_n J sourceTokenValue toTokenValue;
               changeInPercentage = times_n J (divide_n J priceChange toTokenValue) (Number J 100)
           in (changeInPercentage,
               if lessThan J (Number J 0) changeInPercentage then up
               else if lessThan J changeInPercentage (Number J 0) then down
               else none))"

definition setGasFee :: "'n js \<Rightarrow> 'n env \<Rightarrow> ('n, unit) proc" where
  "setGasFee J E =
     andThen (await GetGasPrice (api_getGasPrice E))
       (\<lambda>maxFeePerGas. case BigInt J maxFeePerGas of
          None \<Rightarrow> throw (SyntaxError maxFeePerGas)
        | Some fee \<Rightarrow> assign (\<lambda>s. s\<lparr>gasFee := fee\<rparr>))"

definition calculateGasPriceInEther :: "'n js \<Rightarrow> int \<Rightarrow> int \<Rightarrow> 'n" where
  "calculateGasPriceInEther J gas gasPrice =
     (let totalGasCostInWei = gasPrice * gas
      in divide_n J (Number J totalGasCostInWei) (Number J (10 ^ 18)))"

text \<open>
  Nothing in the \<^verbatim>\<open>try\<close> block of \<open>calculateGasPriceInUSD\<close> throws on two
  \<^verbatim>\<open>bigint\<close>s, so its \<^verbatim>\<open>catch\<close> is never entered.
\<close>

definition calculateGasPriceInUSD :: "'n js \<Rightarrow> 'n ConvertControllerState \<Rightarrow> int \<Rightarrow> int \<Rightarrow> 'n" where
  "calculateGasPriceInUSD J s gas gasPrice =
     (let totalGasCostInEther = calculateGasPriceInEther J gas gasPrice;
          networkPriceNumber = parseFloat J (networkPrice s)
      in times_n J totalGasCostInEther networkPriceNumber)"

text \<open>The second parameter of \<open>calculatePriceImpact\<close> defaults to 0.\<close>

definition calculatePriceImpact :: "'n js \<Rightarrow> 'n ConvertControllerState \<Rightarrow> string \<Rightarrow> 'n option \<Rightarrow> 'n" where
  "calculatePriceImpact J s toTokenAmount' gasPriceInUSD' =
     (let gasPrice = (case gasPriceInUSD' of None \<Rightarrow> Number J 0 | Some g \<Rightarrow> g);
          sourceTokenAmountN = parseFloat J (sourceTokenAmount s);
          toTokenAmountN = parseFloat J toTokenAmount';
          sourceTokenPrice = sourceTokenPriceInUSD s;
          toTokenPrice = toTokenPriceInUSD s;
          totalSourceCostUSD = times_n J sourceTokenAmountN sourceTokenPrice;
          adjustedTotalSourceCostUSD = plus_n J totalSourceCostUSD gasPrice;
          effectivePriceIncludingGas = divide_n J adjustedTotalSourceCostUSD toTokenAmountN
      in times_n J (divide_n J (minus_n J effectivePriceIncludingGas toTokenPrice) toTokenPrice)
           (Number J 100))"

definition calculateMaxSlippage :: "'n js \<Rightarrow> 'n ConvertControllerState \<Rightarrow> 'n" where
  "calculateMaxSlippage J s =
     (let fromTokenAmount = parseFloat J (sourceTokenAmount s);
          slippageToleranceDecimal = divide_n J (parseFloat J (slippage s)) (Number J 100)
      in times_n J fromTokenAmount slippageToleranceDecimal)"

definition getToAmount :: "'n js \<Rightarrow> 'n ConvertControllerState \<Rightarrow> string" where
  "getToAmount J s =
     (let toTokenConvertedAmount =
            (if truthy J (sourceTokenPriceInUSD s) \<and> truthy J (toTokenPriceInUSD s)
             then times_n J (divide_n J (Number J 1) (toTokenPriceInUSD s)) (sourceTokenPriceInUSD s)
             else Number J 0);
          scaleFactor = Number J 10000000000;
          scaledNumber = times_n J toTokenConvertedAmount scaleFactor
      in toString J (Math_round J scaledNumber))"

text \<open>
  \<open>setToTokenAmountValue\<close>: \<^verbatim>\<open>BigInt(toTokenAmount)\<close> throws on a string that is no
  integer. \<open>toTokenAmount\<close> is assigned twice; the second assignment stands.
\<close>

definition setToTokenAmountValue :: "'n js \<Rightarrow> 'n env \<Rightarrow> string \<Rightarrow> 'n \<Rightarrow> string \<Rightarrow> ('n, unit) proc" where
  "setToTokenAmountValue J E toTokenAmount' toTokenDecimals' toTokenAddress' =
     (if \<not> truthyS toTokenAddress' \<or> \<not> truthyS toTokenAmount' then return ()
      else case BigInt J toTokenAmount' of
             None \<Rightarrow> throw (SyntaxError toTokenAmount')
           | Some units \<Rightarrow>
               assign (\<lambda>s.
                 let amount = conn_formatUnits E units toTokenDecimals';
                     sourceTokenAmountN = parseFloat J (sourceTokenAmount s);
                     sourceTokenPrice = sourceTokenPriceInUSD s;
                     toTokenPrice = parseFloat J (orElse (tokensPriceMap s toTokenAddress') ''0'');
                     toTokenAmountValue =
                       divide_n J (times_n J sourceTokenAmountN sourceTokenPrice) toTokenPrice
                 in s\<lparr> toTokenAmount := amount \<rparr>
                     \<lparr> toTokenPriceInUSD := toTokenPrice \<rparr>
                     \<lparr> toTokenAmount := toString J toTokenAmountValue \<rparr>))"

definition setTransactionDetails :: "'n js \<Rightarrow> 'n env \<Rightarrow> int \<Rightarrow> int \<Rightarrow> ('n, unit) proc" where
  "setTransactionDetails J E gas gasPrice =
     andThen (getParams E) (\<lambda>p.
       case toTokenAddress p of
         None \<Rightarrow> return ()
       | Some ta \<Rightarrow>
           if \<not> truthyS (hexString ta) then return ()
           else assign (\<lambda>s.
                  let toTokenPrice = orElse (tokensPriceMap s (hexString ta)) ''0'';
                      s1 = s\<lparr>toTokenPriceInUSD := parseFloat J toTokenPrice\<rparr>;
                      s2 = s1\<lparr>gasPriceInUSD := Some (calculateGasPriceInUSD J s1 gas gasPrice)\<rparr>;
                      s3 = s2\<lparr>priceImpact :=
                                 Some (calculatePriceImpact J s2 (toTokenAmountP p) (gasPriceInUSD s2))\<rparr>
                  in s3\<lparr>maxSlippage := Some (calculateMaxSlippage J s3)\<rparr>))"

subsection \<open>Approval and convert transactions\<close>

definition createTokenAllowance :: "'n js \<Rightarrow> 'n env \<Rightarrow> ('n, TransactionParams) proc" where
  "createTokenAllowance J E =
     andThen (getParams E) (\<lambda>p.
       case sourceTokenAddress p of
         None \<Rightarrow> throw (Error ''>>> createTokenAllowance - No source token address found.'')
       | Some sa \<Rightarrow>
           if \<not> truthyS (hexString sa)
           then throw (Error ''>>> createTokenAllowance - No source token address found.'')
           else
             andThen (assign (\<lambda>s. s\<lparr>loading := Some True\<rparr>)) (\<lambda>_.
             andThen (await (GetConvertApprovalData sa) (api_getConvertApprovalData E sa)) (\<lambda>transaction.
               let args = \<lparr> eg_address = fromAddress p,
                            eg_to = ap_to transaction,
                            eg_data = ap_data transaction \<rparr>
               in andThen (await (GetEstimatedGas args) (conn_getEstimatedGas E args)) (\<lambda>gasLimit.
                    case BigInt J (ap_gasPrice transaction) of
                      None \<Rightarrow> throw (SyntaxError (ap_gasPrice transaction))
                    | Some gasPrice' \<Rightarrow>
                        (case BigInt J (ap_value transaction) of
                           None \<Rightarrow> throw (SyntaxError (ap_value transaction))
                         | Some value' \<Rightarrow>
                             return \<lparr> tx_data = ap_data transaction,
                                      tx_to = ap_to transaction,
                                      tx_gas = gasLimit,
                                      tx_gasPrice = gasPrice',
                                      tx_value = value' \<rparr>)))))"

definition createConvert :: "'n js \<Rightarrow> 'n env \<Rightarrow> ('n, TransactionParams) proc" where
  "createConvert J E =
     andThen (getParams E) (\<lambda>p.
       case (sourceTokenAddress p, toTokenAddress p, sourceTokenDecimals p) of
         (Some sa, Some ta, Some sd) \<Rightarrow>
           if \<not> truthyS (sourceTokenAmountP p) \<or> \<not> truthyS (hexString sa)
              \<or> \<not> truthyS (hexString ta) \<or> \<not> truthy J sd
           then throw (Error ''>>> createConvert: Invalid values to start converting'')
           else
             let gasArgs = \<lparr> eg_address = fromAddress p, eg_to = ta, eg_data = Hex [] \<rparr>
             in andThen (await (GetEstimatedGas gasArgs) (conn_getEstimatedGas E gasArgs)) (\<lambda>gasLimit.
                andThen (assign (\<lambda>s.
                           s\<lparr>gasPriceInUSD := Some (calculateGasPriceInUSD J s gasLimit (gasFee s))\<rparr>)) (\<lambda>_.
                  let args = \<lparr> cd_fromAddress = fromAddress p,
                               cd_sourceTokenAddress = sa,
                               cd_sourceTokenAmount = sourceTokenAmountP p,
                               cd_toTokenAddress = ta,
                               cd_decimals = sd \<rparr>
                  in andThen (await (GetConvertData args) (api_getConvertData E args)) (\<lambda>response.
                       case BigInt J (cv_gas response) of
                         None \<Rightarrow> throw (SyntaxError (cv_gas response))
                       | Some gas' \<Rightarrow>
                           (case BigInt J (cv_gasPrice response) of
                              None \<Rightarrow> throw (SyntaxError (cv_gasPrice response))
                            | Some gasPrice' \<Rightarrow>
                                (case BigInt J (cv_value response) of
                                   None \<Rightarrow> throw (SyntaxError (cv_value response))
                                 | Some value' \<Rightarrow>
                                     return \<lparr> tx_data = cv_data response,
                                              tx_to = cv_to response,
                                              tx_gas = gas',
                                              tx_gasPrice = gasPrice',
                                              tx_value = value' \<rparr>)))))
       | _ \<Rightarrow> throw (Error ''>>> createConvert: Invalid values to start converting''))"

text \<open>
  \<open>makeChecks\<close>. The first component of the result tells whether the procedure went
  past its early \<^verbatim>\<open>return\<close>.
\<close>

definition makeChecks :: "'n js \<Rightarrow> 'n env \<Rightarrow> ('n, bool) proc" where
  "makeChecks J E =
     andThen (getParams E) (\<lambda>p.
       case (sourceTokenAddress p, sourceTokenDecimals p, toTokenDecimals p, toTokenAddress p) of
         (Some sa, Some sd, Some td, Some ta) \<Rightarrow>
           if \<not> truthyS (hexString sa) \<or> \<not> truthyS (sourceTokenAmountP p)
              \<or> strictEq J (parseFloat J (sourceTokenAmountP p)) (Number J 0)
              \<or> \<not> truthy J sd \<or> \<not> truthy J td \<or> \<not> truthyS (hexString ta)
           then return False
           else
             andThen (assign (\<lambda>s. s\<lparr>loading := Some True\<rparr>)) (\<lambda>_.
             let args = \<lparr> al_fromAddress = fromAddress p,
                          al_sourceTokenAddress = sa,
                          al_sourceTokenAmount = sourceTokenAmountP p,
                          al_sourceTokenDecimals = sd \<rparr>
             in andThen (await (CheckConvertAllowance args) (api_checkConvertAllowance E args)) (\<lambda>hasAllowance.
                andThen getState (\<lambda>s0.
                  let toAmount = getToAmount J s0
                  in andThen
                       (if hasAllowance
                        then andThen (assign (\<lambda>s. s\<lparr>approvalTransaction := None\<rparr>)) (\<lambda>_.
                             andThen (createConvert J E) (\<lambda>transaction.
                             andThen (assign (\<lambda>s. s\<lparr>convertTransaction := Some transaction\<rparr>)) (\<lambda>_.
                             andThen (setToTokenAmountValue J E toAmount td (hexString ta)) (\<lambda>_.
                             setTransactionDetails J E (tx_gas transaction) (tx_gasPrice transaction)))))
                        else andThen (createTokenAllowance J E) (\<lambda>transaction.
                             andThen (assign (\<lambda>s. s\<lparr>approvalTransaction := Some transaction\<rparr>)) (\<lambda>_.
                             andThen (setToTokenAmountValue J E toAmount td (hexString ta)) (\<lambda>_.
                             setTransactionDetails J E (tx_gas transaction) (tx_gasPrice transaction)))))
                       (\<lambda>_. andThen (assign (\<lambda>s. s\<lparr>loading := Some False\<rparr>)) (\<lambda>_. return True)))))
       | _ \<Rightarrow> return False)"

text \<open>
  \<open>convertTokens\<close>. The result tells whether the procedure went past its early
  \<^verbatim>\<open>return\<close>.
\<close>

definition convertTokens :: "'n js \<Rightarrow> 'n env \<Rightarrow> ('n, bool) proc" where
  "convertTokens J E =
     andThen (getParams E) (\<lambda>p.
       case (sourceTokenAddress p, toTokenAddress p) of
         (Some sa, Some ta) \<Rightarrow>
           if \<not> truthyS (hexString sa) \<or> \<not> truthyS (hexString ta) then return False
           else andThen (assign (\<lambda>s. s\<lparr>convertLoading := True\<rparr>)) (\<lambda>_.
                andThen (makeChecks J E) (\<lambda>_. return True))
       | _ \<Rightarrow> return False)"

definition sendTransactionForApproval :: "'n env \<Rightarrow> TransactionParams \<Rightarrow> ('n, unit) proc" where
  "sendTransactionForApproval E data =
     andThen (getParams E) (\<lambda>p.
     andThen (assign (\<lambda>s. s\<lparr>transactionLoading := Some True\<rparr>)) (\<lambda>_.
       tryCatch
         (let args = \<lparr> st_address = fromAddress p,
                       st_to = tx_to data,
                       st_data = tx_data data,
                       st_gas = None,
                       st_gasPrice = tx_gasPrice data,
                       st_value = tx_value data \<rparr>
          in andThen (await (SendTransaction args) (conn_sendTransaction E args)) (\<lambda>_.
             assign (\<lambda>s. s\<lparr> approvalTransaction := None,
                              transactionLoading := Some False \<rparr>)))
         (\<lambda>err.
             andThen (assign (\<lambda>s. s\<lparr> transactionError := shortMessageOf err,
                                       transactionLoading := Some False \<rparr>)) (\<lambda>_.
             showError (orElse (shortMessageOf err) ''Transaction errror'')))))"

text \<open>
  \<open>sendTransactionForConvert\<close> returns the transaction hash, or \<^verbatim>\<open>undefined\<close>
  (\<open>None\<close>).
\<close>

definition sendTransactionForConvert :: "'n env \<Rightarrow> TransactionParams option \<Rightarrow> ('n, string option) proc" where
  "sendTransactionForConvert E data =
     (case data of
        None \<Rightarrow> return None
      | Some d \<Rightarrow>
          andThen (getParams E) (\<lambda>p.
          andThen (assign (\<lambda>s. s\<lparr>transactionLoading := Some True\<rparr>)) (\<lambda>_.
            tryCatch
              (let args = \<lparr> st_address = fromAddress p,
                            st_to = tx_to d,
                            st_data = tx_data d,
                            st_gas = Some (tx_gas d),
                            st_gasPrice = tx_gasPrice d,
                            st_value = tx_value d \<rparr>
               in andThen (await (SendTransaction args) (conn_sendTransaction E args)) (\<lambda>transactionHash.
                  andThen (assign (\<lambda>s. s\<lparr>transactionLoading := Some False\<rparr>)) (\<lambda>_.
                  andThen (routerReplace ''Transactions'') (\<lambda>_.
                  andThen scheduleResetState (\<lambda>_.
                  return (Some transactionHash))))))
              (\<lambda>err.
                  andThen (assign (\<lambda>s. s\<lparr> transactionError := shortMessageOf err,
                                            transactionLoading := Some False \<rparr>)) (\<lambda>_.
                  andThen (showError (orElse (shortMessageOf err) ''Transaction error'')) (\<lambda>_.
                  return None))))))"

subsection \<open>Numeric strings\<close>

text \<open>
  A string \<^emph>\<open>parses as a number\<close> when \<^verbatim>\<open>parseFloat\<close> of it is not \<^verbatim>\<open>NaN\<close>. By the
  definition of \<^verbatim>\<open>parseFloat\<close> in ECMAScript that is a matter of how the string starts:
  after leading white space and an optional sign comes \<^verbatim>\<open>Infinity\<close>, a decimal digit,
  or a dot followed by a decimal digit. (White space: the ASCII characters among
  \<^verbatim>\<open>StrWhiteSpaceChar\<close>.)
\<close>

definition isStrWhiteSpaceChar :: "char \<Rightarrow> bool" where
  "isStrWhiteSpaceChar c = (c \<in> set [CHR 0x09, CHR 0x0A, CHR 0x0B, CHR 0x0C, CHR 0x0D, CHR 0x20])"

definition isDecimalDigit :: "char \<Rightarrow> bool" where
  "isDecimalDigit c = (CHR ''0'' \<le> c \<and> c \<le> CHR ''9'')"

definition parsesAsNumber :: "string \<Rightarrow> bool" where
  "parsesAsNumber s =
     (let trimmed = dropWhile isStrWhiteSpaceChar s;
          unsigned = (case trimmed of
                        [] \<Rightarrow> []
                      | c # cs \<Rightarrow> if c = CHR ''+'' \<or> c = CHR ''-'' then cs else trimmed)
      in take 8 unsigned = ''Infinity''
         \<or> (case unsigned of
               [] \<Rightarrow> False
             | c # cs \<Rightarrow> isDecimalDigit c
                 \<or> (c = CHR ''.'' \<and> (case cs of [] \<Rightarrow> False | d # _ \<Rightarrow> isDecimalDigit d))))"

text \<open>The invariant of the specification: both amounts are numeric strings.\<close>

definition amountsNumeric :: "'n ConvertControllerState \<Rightarrow> bool" where
  "amountsNumeric s = (parsesAsNumber (sourceTokenAmount s) \<and> parsesAsNumber (toTokenAmount s))"

text \<open>
  An outcome of \<open>makeChecks\<close> with \<open>loading\<close> back to false: the procedure did not throw,
  went past its early \<^verbatim>\<open>return\<close>, and left the flag false.
\<close>

definition loadingDone :: "(thrown + bool) \<times> 'n world \<Rightarrow> bool" where
  "loadingDone rw = (fst rw = Inr True \<longrightarrow> loading (state (snd rw)) = Some False)"

subsection \<open>An interpretation of the number primitives\<close>

text \<open>
  To run the procedures on concrete inputs the number primitives need values. \<open>intJs\<close>
  interprets them over the integers, with \<open>None\<close> for \<^verbatim>\<open>NaN\<close>: \<open>parseFloat\<close> reads the
  leading decimal digits of a string, division is integer division and gives \<open>None\<close> on
  a zero divisor. No theorem about the controller depends on this choice; it only serves
  to evaluate them at an instance.
\<close>

definition digitOf :: "char \<Rightarrow> int option" where
  "digitOf c = (if CHR ''0'' \<le> c \<and> c \<le> CHR ''9'' then Some (int (of_char c) - 48) else None)"

fun leadingDigits :: "string \<Rightarrow> int option \<Rightarrow> int option" where
  "leadingDigits [] acc = acc"
| "leadingDigits (c # cs) acc =
     (case digitOf c of
        None \<Rightarrow> acc
      | Some d \<Rightarrow> leadingDigits cs (Some (10 * (case acc of None \<Rightarrow> 0 | Some n \<Rightarrow> n) + d)))"

fun showNat :: "nat \<Rightarrow> string" where
  "showNat n =
     (if n < 10 then [char_of (48 + n)] else showNat (n div 10) @ [char_of (48 + n mod 10)])"

definition showInt :: "int \<Rightarrow> string" where
  "showInt i = (if i < 0 then CHR ''-'' # showNat (nat (- i)) else showNat (nat i))"

definition lift2 :: "(int \<Rightarrow> int \<Rightarrow> int) \<Rightarrow> int option \<Rightarrow> int option \<Rightarrow> int option" where
  "lift2 f x y = (case (x, y) of (Some a, Some b) \<Rightarrow> Some (f a b) | _ \<Rightarrow> None)"

definition intJs :: "int option js" where
  "intJs =
     \<lparr> parseFloat = (\<lambda>s. leadingDigits s None),
       Number = Some,
       truthy = (\<lambda>x. x \<noteq> None \<and> x \<noteq> Some 0),
       strictEq = (\<lambda>x y. x \<noteq> None \<and> x = y),
       lessThan = (\<lambda>x y. case (x, y) of (Some a, Some b) \<Rightarrow> a < b | _ \<Rightarrow> False),
       plus_n = lift2 (+),
       minus_n = lift2 (-),
       times_n = lift2 (*),
       divide_n = (\<lambda>x y. if y = Some 0 then None else lift2 (div) x y),
       Math_round = (\<lambda>x. x),
       toString = (\<lambda>x. case x of None \<Rightarrow> ''NaN'' | Some i \<Rightarrow> showInt i),
       BigInt = (\<lambda>s. if s \<noteq> [] \<and> list_all (\<lambda>c. digitOf c \<noteq> None) s
                      then leadingDigits s None else None) \<rparr>"

text \<open>A token, an account and collaborators that answer nothing useful, for the instances.\<close>

definition tokenA :: "int option TokenInfo" where
  "tokenA = \<lparr> address = Hex ''aa'', symbol = ''AAA'', name = ''Token A'', decimals = Some 18,
              logoURI = [], domainVersion = None, eip2612 = None, isFoT = None, tags = None \<rparr>"

definition tokenB :: "int option TokenInfo" where
  "tokenB = \<lparr> address = Hex ''bb'', symbol = ''BBB'', name = ''Token B'', decimals = Some 6,
              logoURI = [], domainVersion = None, eip2612 = None, isFoT = None, tags = None \<rparr>"

definition failingEnv :: "string option \<Rightarrow> int option env" where
  "failingEnv acct =
     \<lparr> account_address = acct,
       POPULAR_TOKENS = [],
       api_getTokenList = Rejects NonObject,
       api_getTokenPriceWithAddresses = (\<lambda>_. Rejects NonObject),
       api_getMyTokensWithBalance = Rejects NonObject,
       api_getGasPrice = Rejects NonObject,
       api_checkConvertAllowance = (\<lambda>_. Rejects NonObject),
       api_getConvertApprovalData = (\<lambda>_. Rejects NonObject),
       api_getConvertData = (\<lambda>_. Rejects NonObject),
       conn_getEstimatedGas = (\<lambda>_. Rejects NonObject),
       conn_sendTransaction = (\<lambda>_. Rejects (TransactionError (Some ''User rejected the request. Details'') (Some ''User rejected the request.''))),
       conn_formatUnits = (\<lambda>_ _. ''0'') \<rparr>"

definition sampleTx :: TransactionParams where
  "sampleTx = \<lparr> tx_data = Hex ''095e'', tx_to = Hex ''bb'', tx_gas = 21000, tx_gasPrice = 5, tx_value = 0 \<rparr>"

definition tokenAWithBalance :: "int option TokenInfoWithBalance" where
  "tokenAWithBalance =
     \<lparr> address = Hex ''aa'', symbol = ''AAA'', name = ''Token A'', decimals = Some 18,
       logoURI = [], domainVersion = None, eip2612 = None, isFoT = None, tags = None,
       balance = ''5'', price = ''2'' \<rparr>"

definition tokenBWithBalance :: "int option TokenInfoWithBalance" where
  "tokenBWithBalance =
     \<lparr> address = Hex ''bb'', symbol = ''BBB'', name = ''Token B'', decimals = Some 6,
       logoURI = [], domainVersion = None, eip2612 = None, isFoT = None, tags = None,
       balance = ''40'', price = ''3'' \<rparr>"

text \<open>Collaborators that answer: the price API knows the price of token A only.\<close>

definition sampleEnv :: "string option \<Rightarrow> int option env" where
  "sampleEnv acct =
     \<lparr> account_address = acct,
       POPULAR_TOKENS = [''BBB''],
       api_getTokenList = Resolves [(''0xbb'', tokenB), (''0xaa'', tokenA)],
       api_getTokenPriceWithAddresses = (\<lambda>_. Resolves [''0xaa'' \<mapsto> ''2'']),
       api_getMyTokensWithBalance =
         Resolves (Some [(''0xaa'', tokenAWithBalance), (''0xbb'', tokenBWithBalance)]),
       api_getGasPrice = Resolves ''7'',
       api_checkConvertAllowance = (\<lambda>_. Resolves True),
       api_getConvertApprovalData =
         (\<lambda>_. Resolves \<lparr> ap_to = Hex ''aa'', ap_data = Hex ''095e'', ap_gasPrice = ''5'', ap_value = ''0'' \<rparr>),
       api_getConvertData =
         (\<lambda>_. Resolves \<lparr> cv_data = Hex ''12aa'', cv_to = Hex ''1111'', cv_gas = ''21000'',
                           cv_gasPrice = ''5'', cv_value = ''0'' \<rparr>),
       conn_getEstimatedGas = (\<lambda>_. Resolves 21000),
       conn_sendTransaction = (\<lambda>_. Resolves ''0xhash''),
       conn_formatUnits = (\<lambda>units _. showInt units) \<rparr>"

text \<open>
  A world in which the balances are known and the user has selected token A and token B
  and typed an amount.
\<close>

definition selectedWorld :: "string \<Rightarrow> int option world" where
  "selectedWorld amount =
     (initialWorld intJs)
       \<lparr> state := (initialState intJs)
           \<lparr> sourceToken := Some tokenA,
             toToken := Some tokenB,
             sourceTokenAmount := amount,
             sourceTokenPriceInUSD := Some 2,
             toTokenPriceInUSD := Some 3,
             myTokensWithBalance :=
               Some [(''0xaa'', tokenAWithBalance), (''0xbb'', tokenBWithBalance)],
             tokensPriceMap := [''0xaa'' \<mapsto> ''2'', ''0xbb'' \<mapsto> ''3''] \<rparr> \<rparr>"

section \<open>Basic facts\<close>

text \<open>
  What each procedure does on the paths the properties below are about: the result and the
  world after it, under the condition that selects the path.
\<close>

lemmas proc_defs =
  andThen_def return_def throw_def assign_def await_def getState_def tryCatch_def
  showError_def routerReplace_def scheduleResetState_def floatCall_def

declare showNat.simps [simp del]

lemma orElse_falsy: "\<not> truthyO x \<Longrightarrow> orElse x d = d"
  by (cases x) (simp_all add: orElse_def truthyO_def)

lemma truthyO_Some: "truthyO x \<Longrightarrow> \<exists>a. x = Some a \<and> truthyS a"
  by (cases x) (simp_all add: truthyO_def)

lemma truthyS_hexString [simp]: "truthyS (hexString a)"
  by (cases a) (simp add: truthyS_def)

lemma getParams_no_address:
  "\<not> truthyO (account_address E) \<Longrightarrow>
   getParams E w = (Inl (Error ''No address found to swap the tokens from.''), w)"
  by (simp add: getParams_def throw_def truthyO_def split: option.splits)

lemma getParams_address:
  assumes "account_address E = Some a" and "truthyS a"
  shows "getParams E w =
    (Inr \<lparr> fromAddress = a,
           sourceTokenAddress = map_option address (sourceToken (state w)),
           toTokenAddress = map_option address (toToken (state w)),
           toTokenAmountP = toTokenAmount (state w),
           toTokenDecimals = map_option decimals (toToken (state w)),
           sourceTokenAmountP = sourceTokenAmount (state w),
           sourceTokenDecimals = map_option decimals (sourceToken (state w)) \<rparr>, w)"
  using assms by (simp add: getParams_def return_def)

lemma getAddressPrice_hit:
  assumes "tokensPriceMap (state w) addr = Some p" and "truthyS p"
  shows "getAddressPrice J E addr w = (Inr (parseFloat J p), w)"
  using assms by (simp add: getAddressPrice_def proc_defs Let_def)

lemma getAddressPrice_miss:
  assumes api: "api_getTokenPriceWithAddresses E [addr] = Resolves prices"
    and miss: "\<not> truthyO (tokensPriceMap (state w) addr)"
  shows "getAddressPrice J E addr w =
          (Inr (parseFloat J (orElse (prices addr) ''0'')),
           w\<lparr> requests := requests w @ [GetTokenPriceWithAddresses [addr]],
              state := (state w)\<lparr>tokensPriceMap :=
                         (tokensPriceMap (state w))(addr \<mapsto> orElse (prices addr) ''0'')\<rparr> \<rparr>)"
proof (cases "tokensPriceMap (state w) addr")
  case None
  then show ?thesis
    using api by (simp add: getAddressPrice_def proc_defs Let_def)
next
  case (Some x)
  with miss have "\<not> truthyS x" by (simp add: truthyO_def)
  with Some show ?thesis
    using api by (simp add: getAddressPrice_def proc_defs Let_def)
qed

lemma getAddressPrice_rejected:
  assumes api: "api_getTokenPriceWithAddresses E [addr] = Rejects e"
    and miss: "\<not> truthyO (tokensPriceMap (state w) addr)"
  shows "getAddressPrice J E addr w =
          (Inl e, w\<lparr>requests := requests w @ [GetTokenPriceWithAddresses [addr]]\<rparr>)"
proof (cases "tokensPriceMap (state w) addr")
  case None
  then show ?thesis
    using api by (simp add: getAddressPrice_def proc_defs Let_def)
next
  case (Some x)
  with miss have "\<not> truthyS x" by (simp add: truthyO_def)
  with Some show ?thesis
    using api by (simp add: getAddressPrice_def proc_defs Let_def)
qed

lemma setTokenPriceToMap_resolved:
  assumes api: "api_getTokenPriceWithAddresses E [addr] = Resolves prices"
  shows "setTokenPriceToMap E addr w =
          (Inr (orElse (prices addr) ''0''),
           w\<lparr> requests := requests w @ [GetTokenPriceWithAddresses [addr]],
              state :=
                (if addr = CURRENT_CHAIN_ADDRESS
                 then (state w)\<lparr> tokensPriceMap :=
                                    (tokensPriceMap (state w))(addr \<mapsto> orElse (prices addr) ''0''),
                                  networkPrice := orElse (prices addr) ''0'' \<rparr>
                 else (state w)\<lparr> tokensPriceMap :=
                                    (tokensPriceMap (state w))(addr \<mapsto> orElse (prices addr) ''0'') \<rparr>) \<rparr>)"
  using api by (simp add: setTokenPriceToMap_def proc_defs Let_def)

lemma getNetworkTokenPrice_resolved:
  assumes api: "api_getTokenPriceWithAddresses E [CURRENT_CHAIN_ADDRESS] = Resolves prices"
  shows "getNetworkTokenPrice E w =
          (Inr (),
           w\<lparr> requests := requests w @ [GetTokenPriceWithAddresses [CURRENT_CHAIN_ADDRESS]],
              state := (state w)
                \<lparr> tokensPriceMap := (tokensPriceMap (state w))
                     (CURRENT_CHAIN_ADDRESS \<mapsto> orElse (prices CURRENT_CHAIN_ADDRESS) ''0''),
                  networkPrice := orElse (prices CURRENT_CHAIN_ADDRESS) ''0'' \<rparr> \<rparr>)"
  using api by (simp add: getNetworkTokenPrice_def proc_defs Let_def)

lemma getTokenList_resolved:
  assumes "api_getTokenList E = Resolves toks"
  shows "getTokenList E w =
    (Inr toks,
     w\<lparr> requests := requests w @ [GetTokenList],
        state := (state w)
          \<lparr> tokens := Some toks,
            popularTokens :=
              Some (filter (\<lambda>(tokenAddress, tokenInfo). symbol tokenInfo \<in> set (POPULAR_TOKENS E))
                      (sort_key (\<lambda>(tokenAddress, tokenInfo). symbol tokenInfo) toks)) \<rparr> \<rparr>)"
  using assms by (simp add: getTokenList_def proc_defs)

lemma fold_prices:
  "distinct (map fst r) \<Longrightarrow>
   fold (\<lambda>(tokenAddress, tokenInfo) prices. prices(tokenAddress \<mapsto> f tokenInfo)) r m
     = (\<lambda>a. case map_of r a of None \<Rightarrow> m a | Some t \<Rightarrow> Some (f t))"
proof (induction r arbitrary: m)
  case Nil
  then show ?case by simp
next
  case (Cons x r)
  obtain k v where x: "x = (k, v)" by (cases x)
  from Cons.prems x have fresh: "map_of r k = None" and d: "distinct (map fst r)"
    by (auto simp: map_of_eq_None_iff)
  have "fold (\<lambda>(tokenAddress, tokenInfo) prices. prices(tokenAddress \<mapsto> f tokenInfo)) (x # r) m
          = (\<lambda>a. case map_of r a of None \<Rightarrow> (m(k \<mapsto> f v)) a | Some t \<Rightarrow> Some (f t))"
    by (simp add: x Cons.IH [OF d])
  also have "\<dots> = (\<lambda>a. case map_of (x # r) a of None \<Rightarrow> m a | Some t \<Rightarrow> Some (f t))"
    using fresh by (auto simp: x fun_eq_iff split: option.splits)
  finally show ?case .
qed

lemma getMyTokensWithBalance_resolved:
  assumes api: "api_getMyTokensWithBalance E = Resolves (Some res)"
    and keys: "distinct (map fst res)"
  shows "getMyTokensWithBalance E w =
     (Inr (), w\<lparr> requests := requests w @ [GetMyTokensWithBalance],
                 state := (state w)\<lparr> tokensPriceMap := (\<lambda>a. map_option price (map_of res a)),
                                      myTokensWithBalance := Some res \<rparr> \<rparr>)"
proof -
  have m: "fold (\<lambda>(tokenAddress, tokenInfo) prices. prices(tokenAddress \<mapsto> price tokenInfo)) res Map.empty
             = (\<lambda>a. map_option price (map_of res a))"
    by (auto simp: fold_prices [OF keys] fun_eq_iff split: option.splits)
  show ?thesis
    using api by (simp add: getMyTokensWithBalance_def proc_defs Let_def m)
qed

lemma getMyTokensWithBalance_requests:
  assumes "api_getMyTokensWithBalance E = Resolves res"
  shows "fst (getMyTokensWithBalance E w) = Inr ()"
    "requests (snd (getMyTokensWithBalance E w)) = requests w @ [GetMyTokensWithBalance]"
  using assms by (simp_all add: getMyTokensWithBalance_def proc_defs split: option.splits)

subsection \<open>What the floating calls leave alone\<close>

lemma setTokenPriceToMap_frame:
  "sourceToken (state (snd (setTokenPriceToMap E a w))) = sourceToken (state w)"
  "toToken (state (snd (setTokenPriceToMap E a w))) = toToken (state w)"
  "sourceTokenAmount (state (snd (setTokenPriceToMap E a w))) = sourceTokenAmount (state w)"
  "toTokenAmount (state (snd (setTokenPriceToMap E a w))) = toTokenAmount (state w)"
  by (simp_all add: setTokenPriceToMap_def proc_defs Let_def split: outcome.splits)

lemma checkToTokenValues_frame:
  "sourceToken (state (snd (checkToTokenValues J E a w))) = sourceToken (state w)"
  "toToken (state (snd (checkToTokenValues J E a w))) = toToken (state w)"
  "sourceTokenAmount (state (snd (checkToTokenValues J E a w))) = sourceTokenAmount (state w)"
  "toTokenAmount (state (snd (checkToTokenValues J E a w))) = toTokenAmount (state w)"
  by (simp_all add: checkToTokenValues_def setTokenPriceToMap_def proc_defs Let_def
        split: outcome.splits)

lemma getAddressPrice_frame:
  "sourceToken (state (snd (getAddressPrice J E a w))) = sourceToken (state w)"
  "toToken (state (snd (getAddressPrice J E a w))) = toToken (state w)"
  "sourceTokenAmount (state (snd (getAddressPrice J E a w))) = sourceTokenAmount (state w)"
  "toTokenAmount (state (snd (getAddressPrice J E a w))) = toTokenAmount (state w)"
  "toTokenPriceInUSD (state (snd (getAddressPrice J E a w))) = toTokenPriceInUSD (state w)"
  by (simp_all add: getAddressPrice_def proc_defs Let_def split: outcome.splits option.splits)

lemma checkSourceTokenValues_frame:
  "sourceToken (state (snd (checkSourceTokenValues J E a amt w))) = sourceToken (state w)"
  "toToken (state (snd (checkSourceTokenValues J E a amt w))) = toToken (state w)"
  "sourceTokenAmount (state (snd (checkSourceTokenValues J E a amt w))) = sourceTokenAmount (state w)"
  "toTokenAmount (state (snd (checkSourceTokenValues J E a amt w))) \<in> {toTokenAmount (state w), ''0''}"
proof -
  obtain r w1 where g: "getAddressPrice J E a w = (r, w1)"
    by (cases "getAddressPrice J E a w")
  have f: "sourceToken (state w1) = sourceToken (state w)"
    "toToken (state w1) = toToken (state w)"
    "sourceTokenAmount (state w1) = sourceTokenAmount (state w)"
    "toTokenAmount (state w1) = toTokenAmount (state w)"
    using getAddressPrice_frame [of J E a w] by (simp_all add: g)
  show "sourceToken (state (snd (checkSourceTokenValues J E a amt w))) = sourceToken (state w)"
    "toToken (state (snd (checkSourceTokenValues J E a amt w))) = toToken (state w)"
    "sourceTokenAmount (state (snd (checkSourceTokenValues J E a amt w))) = sourceTokenAmount (state w)"
    "toTokenAmount (state (snd (checkSourceTokenValues J E a amt w))) \<in> {toTokenAmount (state w), ''0''}"
    using f
    by (cases r; simp add: checkSourceTokenValues_def andThen_def assign_def return_def Let_def g)+
qed

lemma runFloating_frame:
  "sourceToken (state (runFloating J E c w)) = sourceToken (state w)"
  "toToken (state (runFloating J E c w)) = toToken (state w)"
  "sourceTokenAmount (state (runFloating J E c w)) = sourceTokenAmount (state w)"
  "toTokenAmount (state (runFloating J E c w)) \<in> {toTokenAmount (state w), ''0''}"
  by (cases c; simp add: runFloating_def setTokenPriceToMap_frame checkToTokenValues_frame
        checkSourceTokenValues_frame [simplified])+

lemma fold_runFloating_frame:
  "sourceToken (state (fold (runFloating J E) cs w)) = sourceToken (state w)
   \<and> toToken (state (fold (runFloating J E) cs w)) = toToken (state w)
   \<and> sourceTokenAmount (state (fold (runFloating J E) cs w)) = sourceTokenAmount (state w)
   \<and> toTokenAmount (state (fold (runFloating J E) cs w)) \<in> {toTokenAmount (state w), ''0''}"
proof (induction cs arbitrary: w)
  case Nil
  then show ?case by simp
next
  case (Cons c cs)
  show ?case
    using Cons.IH [of "runFloating J E c w"] runFloating_frame [of J E c w]
    by auto
qed

lemma settle_frame:
  "sourceToken (state (settle J E w)) = sourceToken (state w)"
  "toToken (state (settle J E w)) = toToken (state w)"
  "sourceTokenAmount (state (settle J E w)) = sourceTokenAmount (state w)"
  "toTokenAmount (state (settle J E w)) \<in> {toTokenAmount (state w), ''0''}"
  using fold_runFloating_frame [of J E "floatingCalls w" "w\<lparr>floatingCalls := []\<rparr>"]
  by (simp_all add: settle_def)

section \<open>Properties\<close>

subsection \<open>Errors of transaction submission\<close>

text \<open>
  Claim C1. When \<^verbatim>\<open>ConnectionController.sendTransaction\<close> rejects, neither
  \<open>sendTransactionForApproval\<close> nor \<open>sendTransactionForConvert\<close> throws: the error's
  \<^verbatim>\<open>shortMessage\<close> is stored in \<open>transactionError\<close>, \<^verbatim>\<open>SnackController.showError\<close>
  receives it (or the fallback message), \<open>transactionLoading\<close> is back to false, and
  \<open>sendTransactionForConvert\<close> returns \<^verbatim>\<open>undefined\<close>. The transaction is only sent when
  the account has an address (and, for the convert, when there is a transaction to send), so
  these are the conditions under which \<^verbatim>\<open>sendTransaction\<close> can reject at all.
\<close>

theorem sendTransaction_rejection_is_caught:
  "(account_address E = Some a \<and> truthyS a
      \<and> conn_sendTransaction E
           \<lparr> st_address = a, st_to = tx_to data, st_data = tx_data data, st_gas = None,
             st_gasPrice = tx_gasPrice data, st_value = tx_value data \<rparr> = Rejects err \<longrightarrow>
        fst (sendTransactionForApproval E data w) = Inr ()
      \<and> transactionError (state (snd (sendTransactionForApproval E data w))) = shortMessageOf err
      \<and> snackErrors (snd (sendTransactionForApproval E data w))
           = snackErrors w @ [orElse (shortMessageOf err) ''Transaction errror'']
      \<and> transactionLoading (state (snd (sendTransactionForApproval E data w))) = Some False)
   \<and> (account_address E = Some a \<and> truthyS a
      \<and> conn_sendTransaction E
           \<lparr> st_address = a, st_to = tx_to data, st_data = tx_data data,
             st_gas = Some (tx_gas data),
             st_gasPrice = tx_gasPrice data, st_value = tx_value data \<rparr> = Rejects err \<longrightarrow>
        fst (sendTransactionForConvert E (Some data) w) = Inr None
      \<and> transactionError (state (snd (sendTransactionForConvert E (Some data) w))) = shortMessageOf err
      \<and> snackErrors (snd (sendTransactionForConvert E (Some data) w))
           = snackErrors w @ [orElse (shortMessageOf err) ''Transaction error'']
      \<and> transactionLoading (state (snd (sendTransactionForConvert E (Some data) w))) = Some False)"
proof -
  have approval:
    "sendTransactionForApproval E data w =
       (Inr (), w\<lparr> state := (state w)\<lparr> transactionLoading := Some False,
                                         transactionError := shortMessageOf err \<rparr>,
                   requests := requests w @
                     [SendTransaction \<lparr> st_address = a, st_to = tx_to data, st_data = tx_data data,
                        st_gas = None, st_gasPrice = tx_gasPrice data, st_value = tx_value data \<rparr>],
                   snackErrors := snackErrors w @ [orElse (shortMessageOf err) ''Transaction errror''] \<rparr>)"
    if "account_address E = Some a" "truthyS a"
      "conn_sendTransaction E
           \<lparr> st_address = a, st_to = tx_to data, st_data = tx_data data, st_gas = None,
             st_gasPrice = tx_gasPrice data, st_value = tx_value data \<rparr> = Rejects err"
    using that
    by (simp add: sendTransactionForApproval_def getParams_address proc_defs Let_def)
  have convert:
    "sendTransactionForConvert E (Some data) w =
       (Inr None, w\<lparr> state := (state w)\<lparr> transactionLoading := Some False,
                                           transactionError := shortMessageOf err \<rparr>,
                     requests := requests w @
                       [SendTransaction \<lparr> st_address = a, st_to = tx_to data, st_data = tx_data data,
                          st_gas = Some (tx_gas data), st_gasPrice = tx_gasPrice data,
                          st_value = tx_value data \<rparr>],
                     snackErrors := snackErrors w @ [orElse (shortMessageOf err) ''Transaction error''] \<rparr>)"
    if "account_address E = Some a" "truthyS a"
      "conn_sendTransaction E
           \<lparr> st_address = a, st_to = tx_to data, st_data = tx_data data,
             st_gas = Some (tx_gas data),
             st_gasPrice = tx_gasPrice data, st_value = tx_value data \<rparr> = Rejects err"
    using that
    by (simp add: sendTransactionForConvert_def getParams_address proc_defs Let_def)
  show ?thesis
    using approval convert by simp
qed

theorem sendTransaction_rejection_is_caught_witness:
  "account_address (failingEnv (Some ''0x1'')) = Some ''0x1'' \<and> truthyS ''0x1''
   \<and> fst (sendTransactionForApproval (failingEnv (Some ''0x1'')) sampleTx (initialWorld intJs)) = Inr ()
   \<and> transactionError (state (snd (sendTransactionForApproval (failingEnv (Some ''0x1'')) sampleTx
        (initialWorld intJs)))) = Some ''User rejected the request.''
   \<and> snackErrors (snd (sendTransactionForApproval (failingEnv (Some ''0x1'')) sampleTx
        (initialWorld intJs))) = [''User rejected the request.'']
   \<and> transactionLoading (state (snd (sendTransactionForApproval (failingEnv (Some ''0x1'')) sampleTx
        (initialWorld intJs)))) = Some False
   \<and> fst (sendTransactionForConvert (failingEnv (Some ''0x1'')) (Some sampleTx) (initialWorld intJs))
        = Inr None
   \<and> snackErrors (snd (sendTransactionForConvert (failingEnv (Some ''0x1'')) (Some sampleTx)
        (initialWorld intJs))) = [''User rejected the request.'']
   \<and> transactionLoading (state (snd (sendTransactionForConvert (failingEnv (Some ''0x1''))
        (Some sampleTx) (initialWorld intJs)))) = Some False"
proof -
  have h1: "account_address (failingEnv (Some ''0x1'')) = Some ''0x1''"
    by (simp add: failingEnv_def)
  have h2: "truthyS ''0x1''"
    by (simp add: truthyS_def)
  have h3: "conn_sendTransaction (failingEnv (Some ''0x1'')) args
              = Rejects (TransactionError (Some ''User rejected the request. Details'')
                  (Some ''User rejected the request.''))" for args
    by (simp add: failingEnv_def)
  show ?thesis
    using sendTransaction_rejection_is_caught
      [of "failingEnv (Some ''0x1'')" "''0x1''" sampleTx
          "TransactionError (Some ''User rejected the request. Details'')
             (Some ''User rejected the request.'')"
          "initialWorld intJs"]
      h1 h2 h3
    by (simp add: initialWorld_def orElse_def truthyS_def)
qed

subsection \<open>Prices default to zero\<close>

text \<open>
  Claim C2. When the price API answers with no price for an address (the entry is missing
  or empty), the price is zero: \<open>getAddressPrice\<close> returns the number 0 and stores the
  string \<^verbatim>\<open>'0'\<close> for the address, \<open>setTokenPriceToMap\<close> returns and stores \<^verbatim>\<open>'0'\<close>
  (and sets \<open>networkPrice\<close> to it when the address is the chain's), and
  \<open>getNetworkTokenPrice\<close> stores \<^verbatim>\<open>'0'\<close> for the chain address and in \<open>networkPrice\<close>.
  \<open>getAddressPrice\<close> asks the API only when it holds no price for the address yet. That
  \<^verbatim>\<open>parseFloat('0')\<close> is the number 0 is a fact about the number primitives.
\<close>

theorem price_defaults_to_zero:
  "(api_getTokenPriceWithAddresses E [addr] = Resolves prices \<and> \<not> truthyO (prices addr)
      \<and> \<not> truthyO (tokensPriceMap (state w) addr) \<and> parseFloat J ''0'' = Number J 0 \<longrightarrow>
        fst (getAddressPrice J E addr w) = Inr (Number J 0)
      \<and> tokensPriceMap (state (snd (getAddressPrice J E addr w))) addr = Some ''0'')
   \<and> (api_getTokenPriceWithAddresses E [addr] = Resolves prices \<and> \<not> truthyO (prices addr) \<longrightarrow>
        fst (setTokenPriceToMap E addr w) = Inr ''0''
      \<and> tokensPriceMap (state (snd (setTokenPriceToMap E addr w))) addr = Some ''0''
      \<and> networkPrice (state (snd (setTokenPriceToMap E addr w)))
           = (if addr = CURRENT_CHAIN_ADDRESS then ''0'' else networkPrice (state w)))
   \<and> (api_getTokenPriceWithAddresses E [CURRENT_CHAIN_ADDRESS] = Resolves prices
      \<and> \<not> truthyO (prices CURRENT_CHAIN_ADDRESS) \<longrightarrow>
        fst (getNetworkTokenPrice E w) = Inr ()
      \<and> tokensPriceMap (state (snd (getNetworkTokenPrice E w))) CURRENT_CHAIN_ADDRESS = Some ''0''
      \<and> networkPrice (state (snd (getNetworkTokenPrice E w))) = ''0'')"
proof -
  have g: "fst (getAddressPrice J E addr w) = Inr (Number J 0)
         \<and> tokensPriceMap (state (snd (getAddressPrice J E addr w))) addr = Some ''0''"
    if api: "api_getTokenPriceWithAddresses E [addr] = Resolves prices"
      and none: "\<not> truthyO (prices addr)"
      and miss: "\<not> truthyO (tokensPriceMap (state w) addr)"
      and zero: "parseFloat J ''0'' = Number J 0"
  proof -
    have p: "orElse (prices addr) ''0'' = ''0''"
      using none by (rule orElse_falsy)
    show ?thesis
      using getAddressPrice_miss [OF api miss, of J, unfolded p zero] by simp
  qed
  have s: "fst (setTokenPriceToMap E addr w) = Inr ''0''
         \<and> tokensPriceMap (state (snd (setTokenPriceToMap E addr w))) addr = Some ''0''
         \<and> networkPrice (state (snd (setTokenPriceToMap E addr w)))
              = (if addr = CURRENT_CHAIN_ADDRESS then ''0'' else networkPrice (state w))"
    if api: "api_getTokenPriceWithAddresses E [addr] = Resolves prices"
      and none: "\<not> truthyO (prices addr)"
  proof -
    have p: "orElse (prices addr) ''0'' = ''0''"
      using none by (rule orElse_falsy)
    show ?thesis
      using setTokenPriceToMap_resolved [OF api, of w, unfolded p] by simp
  qed
  have n: "fst (getNetworkTokenPrice E w) = Inr ()
         \<and> tokensPriceMap (state (snd (getNetworkTokenPrice E w))) CURRENT_CHAIN_ADDRESS = Some ''0''
         \<and> networkPrice (state (snd (getNetworkTokenPrice E w))) = ''0''"
    if api: "api_getTokenPriceWithAddresses E [CURRENT_CHAIN_ADDRESS] = Resolves prices"
      and none: "\<not> truthyO (prices CURRENT_CHAIN_ADDRESS)"
  proof -
    have p: "orElse (prices CURRENT_CHAIN_ADDRESS) ''0'' = ''0''"
      using none by (rule orElse_falsy)
    show ?thesis
      using getNetworkTokenPrice_resolved [OF api, of w, unfolded p] by simp
  qed
  from g s n show ?thesis by blast
qed

theorem price_defaults_to_zero_witness:
  "api_getTokenPriceWithAddresses (sampleEnv None) [''0xbb''] = Resolves [''0xaa'' \<mapsto> ''2'']
   \<and> \<not> truthyO ([''0xaa'' \<mapsto> ''2''] ''0xbb'')
   \<and> \<not> truthyO (tokensPriceMap (state (initialWorld intJs)) ''0xbb'')
   \<and> parseFloat intJs ''0'' = Number intJs 0
   \<and> fst (getAddressPrice intJs (sampleEnv None) ''0xbb'' (initialWorld intJs)) = Inr (Some 0)
   \<and> tokensPriceMap (state (snd (getAddressPrice intJs (sampleEnv None) ''0xbb'' (initialWorld intJs))))
        ''0xbb'' = Some ''0''
   \<and> fst (setTokenPriceToMap (sampleEnv None) ''0xbb'' (initialWorld intJs)) = Inr ''0''
   \<and> tokensPriceMap (state (snd (setTokenPriceToMap (sampleEnv None) ''0xbb'' (initialWorld intJs))))
        ''0xbb'' = Some ''0''
   \<and> tokensPriceMap (state (snd (getNetworkTokenPrice (sampleEnv None) (initialWorld intJs))))
        CURRENT_CHAIN_ADDRESS = Some ''0''
   \<and> networkPrice (state (snd (getNetworkTokenPrice (sampleEnv None) (initialWorld intJs)))) = ''0''"
proof -
  have api: "api_getTokenPriceWithAddresses (sampleEnv None) addrs = Resolves [''0xaa'' \<mapsto> ''2'']"
    for addrs
    by (simp add: sampleEnv_def)
  have none: "\<not> truthyO ([''0xaa'' \<mapsto> ''2''] ''0xbb'')"
    by (simp add: truthyO_def)
  have noneN: "\<not> truthyO ([''0xaa'' \<mapsto> ''2''] CURRENT_CHAIN_ADDRESS)"
    by (simp add: truthyO_def CURRENT_CHAIN_ADDRESS_def)
  have zero: "parseFloat intJs ''0'' = Number intJs 0"
    by (simp add: intJs_def digitOf_def)
  have miss: "\<not> truthyO (tokensPriceMap (state (initialWorld intJs)) ''0xbb'')"
    by (simp add: initialWorld_def initialState_def truthyO_def)
  show ?thesis
    using price_defaults_to_zero
            [of "sampleEnv None" "''0xbb''" "[''0xaa'' \<mapsto> ''2'']" "initialWorld intJs" intJs]
          api none noneN zero miss
    by (simp add: intJs_def)
qed

subsection \<open>Which operations throw\<close>

lemma setSourceTokenAmount_result:
  "fst (setSourceTokenAmount E amount w) =
     (if \<not> truthyO (account_address E) then Inl (Error ''No address found to swap the tokens from.'')
      else if sourceToken (state w) = None then Inl (Error ''No source token address found'')
      else Inr ())"
proof (cases "truthyO (account_address E)")
  case False
  then show ?thesis
    by (simp add: setSourceTokenAmount_def andThen_def getParams_no_address)
next
  case True
  then obtain a where a: "account_address E = Some a" "truthyS a"
    using truthyO_Some by blast
  show ?thesis
    using True
    by (simp add: setSourceTokenAmount_def andThen_def assign_def throw_def getParams_address [OF a]
          split: option.splits)
qed

lemma createTokenAllowance_no_address:
  "\<not> truthyO (account_address E) \<Longrightarrow>
     fst (createTokenAllowance J E w) = Inl (Error ''No address found to swap the tokens from.'')"
  by (simp add: createTokenAllowance_def andThen_def getParams_no_address)

lemma createTokenAllowance_no_token:
  assumes "truthyO (account_address E)" and none: "sourceToken (state w) = None"
  shows "fst (createTokenAllowance J E w)
           = Inl (Error ''>>> createTokenAllowance - No source token address found.'')"
proof -
  from assms(1) obtain a where a: "account_address E = Some a" "truthyS a"
    using truthyO_Some by blast
  show ?thesis
    using none by (simp add: createTokenAllowance_def andThen_def throw_def getParams_address [OF a])
qed

lemma createTokenAllowance_returns:
  assumes a: "account_address E = Some a" "truthyS a"
    and tok: "sourceToken (state w) = Some tok"
    and api: "api_getConvertApprovalData E (address tok) = Resolves tr"
    and gas: "conn_getEstimatedGas E \<lparr> eg_address = a, eg_to = ap_to tr, eg_data = ap_data tr \<rparr>
                = Resolves g"
    and gp: "BigInt J (ap_gasPrice tr) = Some gp"
    and v: "BigInt J (ap_value tr) = Some v"
  shows "fst (createTokenAllowance J E w) =
     Inr \<lparr> tx_data = ap_data tr, tx_to = ap_to tr, tx_gas = g, tx_gasPrice = gp, tx_value = v \<rparr>"
  using tok api gas gp v
  by (simp add: createTokenAllowance_def proc_defs Let_def getParams_address [OF a])

lemma createConvert_no_address:
  "\<not> truthyO (account_address E) \<Longrightarrow>
     fst (createConvert J E w) = Inl (Error ''No address found to swap the tokens from.'')"
  by (simp add: createConvert_def andThen_def getParams_no_address)

lemma createConvert_invalid:
  assumes "truthyO (account_address E)"
    and bad: "sourceToken (state w) = None \<or> toToken (state w) = None
            \<or> \<not> truthyS (sourceTokenAmount (state w))
            \<or> \<not> truthyN J (map_option decimals (sourceToken (state w)))"
  shows "fst (createConvert J E w)
           = Inl (Error ''>>> createConvert: Invalid values to start converting'')"
proof -
  from assms(1) obtain a where a: "account_address E = Some a" "truthyS a"
    using truthyO_Some by blast
  show ?thesis
    using bad
    by (auto simp: createConvert_def andThen_def throw_def getParams_address [OF a] truthyN_def
          split: option.splits)
qed

lemma createConvert_returns:
  assumes a: "account_address E = Some a" "truthyS a"
    and src: "sourceToken (state w) = Some src" and dst: "toToken (state w) = Some dst"
    and amt: "truthyS (sourceTokenAmount (state w))" and dec: "truthy J (decimals src)"
    and gas: "conn_getEstimatedGas E \<lparr> eg_address = a, eg_to = address dst, eg_data = Hex [] \<rparr>
                = Resolves g"
    and api: "api_getConvertData E
                \<lparr> cd_fromAddress = a, cd_sourceTokenAddress = address src,
                  cd_sourceTokenAmount = sourceTokenAmount (state w),
                  cd_toTokenAddress = address dst, cd_decimals = decimals src \<rparr> = Resolves r"
    and big: "BigInt J (cv_gas r) = Some gl" "BigInt J (cv_gasPrice r) = Some gp"
      "BigInt J (cv_value r) = Some v"
  shows "fst (createConvert J E w) =
     Inr \<lparr> tx_data = cv_data r, tx_to = cv_to r, tx_gas = gl, tx_gasPrice = gp, tx_value = v \<rparr>"
  using src dst amt dec gas api big
  by (simp add: createConvert_def proc_defs Let_def getParams_address [OF a])

text \<open>
  Claim C3, as the code has it. The operations are not all free of errors: \<open>getParams\<close>
  throws when the account has no address, and so does every operation that calls it;
  \<open>setSourceTokenAmount\<close> throws when no source token is selected, \<open>createTokenAllowance\<close>
  likewise, and \<open>createConvert\<close> when a token is missing, the source amount is empty or
  the source token's decimals are falsy. With an address, \<open>getParams\<close> returns and
  \<open>setSourceTokenAmount\<close> returns if a source token is selected. With an address and
  these inputs present, \<open>createTokenAllowance\<close> and \<open>createConvert\<close> return their
  transaction when the collaborators answer and the numeric fields of the answer are
  integers (a rejected promise or a \<^verbatim>\<open>BigInt\<close> that fails is thrown on to the caller).
\<close>

theorem operations_throw_on_missing_inputs:
  "(\<not> truthyO (account_address E) \<longrightarrow>
        fst (getParams E w) = Inl (Error ''No address found to swap the tokens from.'')
      \<and> fst (setSourceTokenAmount E amount w) = Inl (Error ''No address found to swap the tokens from.'')
      \<and> fst (createTokenAllowance J E w) = Inl (Error ''No address found to swap the tokens from.'')
      \<and> fst (createConvert J E w) = Inl (Error ''No address found to swap the tokens from.''))
   \<and> (truthyO (account_address E) \<longrightarrow>
        (\<exists>p. fst (getParams E w) = Inr p)
      \<and> fst (setSourceTokenAmount E amount w)
          = (if sourceToken (state w) = None then Inl (Error ''No source token address found'')
             else Inr ())
      \<and> (sourceToken (state w) = None \<longrightarrow>
            fst (createTokenAllowance J E w)
              = Inl (Error ''>>> createTokenAllowance - No source token address found.''))
      \<and> (sourceToken (state w) = None \<or> toToken (state w) = None
            \<or> \<not> truthyS (sourceTokenAmount (state w))
            \<or> \<not> truthyN J (map_option decimals (sourceToken (state w))) \<longrightarrow>
            fst (createConvert J E w)
              = Inl (Error ''>>> createConvert: Invalid values to start converting'')))
   \<and> (account_address E = Some a \<and> truthyS a \<and> sourceToken (state w) = Some src
        \<and> api_getConvertApprovalData E (address src) = Resolves tr
        \<and> conn_getEstimatedGas E \<lparr> eg_address = a, eg_to = ap_to tr, eg_data = ap_data tr \<rparr>
            = Resolves g
        \<and> BigInt J (ap_gasPrice tr) = Some gp \<and> BigInt J (ap_value tr) = Some v \<longrightarrow>
        fst (createTokenAllowance J E w) =
          Inr \<lparr> tx_data = ap_data tr, tx_to = ap_to tr, tx_gas = g, tx_gasPrice = gp, tx_value = v \<rparr>)
   \<and> (account_address E = Some a \<and> truthyS a \<and> sourceToken (state w) = Some src
        \<and> toToken (state w) = Some dst
        \<and> truthyS (sourceTokenAmount (state w)) \<and> truthy J (decimals src)
        \<and> conn_getEstimatedGas E \<lparr> eg_address = a, eg_to = address dst, eg_data = Hex [] \<rparr>
            = Resolves g'
        \<and> api_getConvertData E
              \<lparr> cd_fromAddress = a, cd_sourceTokenAddress = address src,
                cd_sourceTokenAmount = sourceTokenAmount (state w),
                cd_toTokenAddress = address dst, cd_decimals = decimals src \<rparr> = Resolves r
        \<and> BigInt J (cv_gas r) = Some gl' \<and> BigInt J (cv_gasPrice r) = Some gp'
        \<and> BigInt J (cv_value r) = Some v' \<longrightarrow>
        fst (createConvert J E w) =
          Inr \<lparr> tx_data = cv_data r, tx_to = cv_to r, tx_gas = gl', tx_gasPrice = gp', tx_value = v' \<rparr>)"
proof -
  have params: "\<exists>p. fst (getParams E w) = Inr p" if "truthyO (account_address E)"
  proof -
    from that obtain b where "account_address E = Some b" "truthyS b"
      using truthyO_Some by blast
    then show ?thesis by (simp add: getParams_address)
  qed
  show ?thesis
    using params
    by (simp add: getParams_no_address setSourceTokenAmount_result createTokenAllowance_no_address
          createTokenAllowance_no_token createConvert_no_address createConvert_invalid
          createTokenAllowance_returns createConvert_returns)
qed

theorem operations_throw_on_missing_inputs_witness:
  "\<not> truthyO (account_address (failingEnv None))
   \<and> fst (getParams (failingEnv None) (selectedWorld ''4''))
        = Inl (Error ''No address found to swap the tokens from.'')
   \<and> fst (createConvert intJs (failingEnv None) (selectedWorld ''4''))
        = Inl (Error ''No address found to swap the tokens from.'')
   \<and> truthyO (account_address (sampleEnv (Some ''0x1'')))
   \<and> fst (setSourceTokenAmount (sampleEnv (Some ''0x1'')) ''4'' (selectedWorld ''4'')) = Inr ()
   \<and> fst (createTokenAllowance intJs (sampleEnv (Some ''0x1'')) (selectedWorld ''4''))
        = Inr \<lparr> tx_data = Hex ''095e'', tx_to = Hex ''aa'', tx_gas = 21000, tx_gasPrice = 5, tx_value = 0 \<rparr>
   \<and> fst (createConvert intJs (sampleEnv (Some ''0x1'')) (selectedWorld ''4''))
        = Inr \<lparr> tx_data = Hex ''12aa'', tx_to = Hex ''1111'', tx_gas = 21000, tx_gasPrice = 5, tx_value = 0 \<rparr>
   \<and> sourceToken (state (initialWorld intJs)) = None
   \<and> fst (setSourceTokenAmount (sampleEnv (Some ''0x1'')) ''4'' (initialWorld intJs))
        = Inl (Error ''No source token address found'')
   \<and> fst (createTokenAllowance intJs (sampleEnv (Some ''0x1'')) (initialWorld intJs))
        = Inl (Error ''>>> createTokenAllowance - No source token address found.'')
   \<and> fst (createConvert intJs (sampleEnv (Some ''0x1'')) (initialWorld intJs))
        = Inl (Error ''>>> createConvert: Invalid values to start converting'')"
proof -
  have none: "\<not> truthyO (account_address (failingEnv None))"
    by (simp add: failingEnv_def truthyO_def)
  have some: "account_address (sampleEnv (Some ''0x1'')) = Some ''0x1''" "truthyS ''0x1''"
    "truthyO (account_address (sampleEnv (Some ''0x1'')))"
    by (simp_all add: sampleEnv_def truthyO_def truthyS_def)
  have sel: "sourceToken (state (selectedWorld ''4'')) = Some tokenA"
    "toToken (state (selectedWorld ''4'')) = Some tokenB"
    "sourceTokenAmount (state (selectedWorld ''4'')) = ''4''"
    by (simp_all add: selectedWorld_def)
  have env: "api_getConvertApprovalData (sampleEnv (Some ''0x1'')) x
               = Resolves \<lparr> ap_to = Hex ''aa'', ap_data = Hex ''095e'', ap_gasPrice = ''5'', ap_value = ''0'' \<rparr>"
    "conn_getEstimatedGas (sampleEnv (Some ''0x1'')) y = Resolves 21000"
    "api_getConvertData (sampleEnv (Some ''0x1'')) z
       = Resolves \<lparr> cv_data = Hex ''12aa'', cv_to = Hex ''1111'', cv_gas = ''21000'',
                    cv_gasPrice = ''5'', cv_value = ''0'' \<rparr>" for x y z
    by (simp_all add: sampleEnv_def)
  have big: "BigInt intJs ''5'' = Some 5" "BigInt intJs ''0'' = Some 0" "BigInt intJs ''21000'' = Some 21000"
    by (simp_all add: intJs_def digitOf_def)
  have dec: "truthy intJs (decimals tokenA)"
    by (simp add: intJs_def tokenA_def)
  have init: "sourceToken (state (initialWorld intJs)) = None"
    by (simp add: initialWorld_def initialState_def)
  show ?thesis
    using operations_throw_on_missing_inputs
            [of "failingEnv None" "selectedWorld ''4''" "''4''" intJs]
          operations_throw_on_missing_inputs
            [of "sampleEnv (Some ''0x1'')" "initialWorld intJs" "''4''" intJs]
          operations_throw_on_missing_inputs
            [of "sampleEnv (Some ''0x1'')" "selectedWorld ''4''" "''4''" intJs "''0x1''" tokenA
                "\<lparr> ap_to = Hex ''aa'', ap_data = Hex ''095e'', ap_gasPrice = ''5'', ap_value = ''0'' \<rparr>"
                21000 5 0 tokenB 21000
                "\<lparr> cv_data = Hex ''12aa'', cv_to = Hex ''1111'', cv_gas = ''21000'',
                    cv_gasPrice = ''5'', cv_value = ''0'' \<rparr>" 21000 5 0]
          none some sel env big dec init
    by (simp add: truthyS_def)
qed

text \<open>
  The claim as the specification states it fails: each of the four operations it names
  throws on some input.
\<close>

theorem operations_never_throw_counterexample:
  "fst (getParams (failingEnv None) (initialWorld intJs))
      = Inl (Error ''No address found to swap the tokens from.'')
   \<and> fst (setSourceTokenAmount (sampleEnv (Some ''0x1'')) ''1'' (initialWorld intJs))
      = Inl (Error ''No source token address found'')
   \<and> fst (createTokenAllowance intJs (sampleEnv (Some ''0x1'')) (initialWorld intJs))
      = Inl (Error ''>>> createTokenAllowance - No source token address found.'')
   \<and> fst (createConvert intJs (sampleEnv (Some ''0x1'')) (initialWorld intJs))
      = Inl (Error ''>>> createConvert: Invalid values to start converting'')"
proof -
  have none: "\<not> truthyO (account_address (failingEnv None))"
    by (simp add: failingEnv_def truthyO_def)
  have some: "truthyO (account_address (sampleEnv (Some ''0x1'')))"
    by (simp add: sampleEnv_def truthyO_def truthyS_def)
  have init: "sourceToken (state (initialWorld intJs)) = None"
    by (simp add: initialWorld_def initialState_def)
  show ?thesis
    using init some
    by (simp add: getParams_no_address [OF none] setSourceTokenAmount_result
          createTokenAllowance_no_token createConvert_invalid)
qed

subsection \<open>Loading flags\<close>

lemma loadingDone_andThen:
  assumes "\<And>a w1. loadingDone (f a w1)"
  shows "loadingDone (andThen m f w)"
  using assms by (cases "m w"; cases "fst (m w)") (auto simp: andThen_def loadingDone_def)

lemma loadingDone_finally:
  "loadingDone (andThen m (\<lambda>_. andThen (assign (\<lambda>s. s\<lparr>loading := Some False\<rparr>)) (\<lambda>_. return b)) w)"
  by (cases "m w"; cases "fst (m w)") (auto simp: andThen_def assign_def return_def loadingDone_def)

lemma loadingDone_return_False: "loadingDone (return False w)"
  by (simp add: loadingDone_def return_def)

lemma makeChecks_loadingDone: "loadingDone (makeChecks J E w)"
  unfolding makeChecks_def
  by (auto intro!: loadingDone_andThen loadingDone_finally loadingDone_return_False
        simp: Let_def split: option.splits)

lemma sendTransactionForApproval_done:
  assumes "account_address E = Some a" and "truthyS a"
  shows "fst (sendTransactionForApproval E data w) = Inr ()
       \<and> transactionLoading (state (snd (sendTransactionForApproval E data w))) = Some False"
  using assms
  by (simp add: sendTransactionForApproval_def getParams_address proc_defs Let_def
        split: outcome.splits)

lemma sendTransactionForConvert_done:
  assumes "account_address E = Some a" and "truthyS a"
  shows "(\<exists>r. fst (sendTransactionForConvert E (Some data) w) = Inr r)
       \<and> transactionLoading (state (snd (sendTransactionForConvert E (Some data) w))) = Some False"
  using assms
  by (simp add: sendTransactionForConvert_def getParams_address proc_defs Let_def
        split: outcome.splits)

text \<open>
  Claim C4, as the code has it. \<open>makeChecks\<close>, when it completes without throwing and
  past its early \<^verbatim>\<open>return\<close>, leaves \<open>loading\<close> false. The two procedures that send a
  transaction set \<open>transactionLoading\<close> only after \<open>getParams\<close> has found an address;
  then they do not throw and leave \<open>transactionLoading\<close> false, whether the transaction
  was sent or rejected. Without an address they throw before touching the flag, and
  \<open>sendTransactionForConvert\<close> without a transaction returns at once.
\<close>

theorem loading_flags_reset:
  "(fst (makeChecks J E w) = Inr True \<longrightarrow> loading (state (snd (makeChecks J E w))) = Some False)
   \<and> (truthyO (account_address E) \<longrightarrow>
        fst (sendTransactionForApproval E data w) = Inr ()
      \<and> transactionLoading (state (snd (sendTransactionForApproval E data w))) = Some False
      \<and> (\<exists>r. fst (sendTransactionForConvert E (Some data) w) = Inr r)
      \<and> transactionLoading (state (snd (sendTransactionForConvert E (Some data) w))) = Some False)
   \<and> (\<not> truthyO (account_address E) \<longrightarrow>
        sendTransactionForApproval E data w
          = (Inl (Error ''No address found to swap the tokens from.''), w)
      \<and> sendTransactionForConvert E (Some data) w
          = (Inl (Error ''No address found to swap the tokens from.''), w))
   \<and> sendTransactionForConvert E None w = (Inr None, w)"
proof -
  have checks: "fst (makeChecks J E w) = Inr True \<longrightarrow> loading (state (snd (makeChecks J E w))) = Some False"
    using makeChecks_loadingDone [of J E w] by (simp add: loadingDone_def)
  have sent: "fst (sendTransactionForApproval E data w) = Inr ()
      \<and> transactionLoading (state (snd (sendTransactionForApproval E data w))) = Some False
      \<and> (\<exists>r. fst (sendTransactionForConvert E (Some data) w) = Inr r)
      \<and> transactionLoading (state (snd (sendTransactionForConvert E (Some data) w))) = Some False"
    if "truthyO (account_address E)"
  proof -
    from that obtain a where a: "account_address E = Some a" "truthyS a"
      using truthyO_Some by blast
    show ?thesis
      using sendTransactionForApproval_done [OF a, of data w]
        sendTransactionForConvert_done [OF a, of data w]
      by blast
  qed
  have unsent: "sendTransactionForApproval E data w
          = (Inl (Error ''No address found to swap the tokens from.''), w)
      \<and> sendTransactionForConvert E (Some data) w
          = (Inl (Error ''No address found to swap the tokens from.''), w)"
    if "\<not> truthyO (account_address E)"
    using that
    by (simp add: sendTransactionForApproval_def sendTransactionForConvert_def andThen_def
          getParams_no_address)
  have undef: "sendTransactionForConvert E None w = (Inr None, w)"
    by (simp add: sendTransactionForConvert_def return_def)
  from checks sent unsent undef show ?thesis by blast
qed

theorem loading_flags_reset_witness:
  "fst (makeChecks intJs (sampleEnv (Some ''0x1'')) (selectedWorld ''4'')) = Inr True
   \<and> loading (state (snd (makeChecks intJs (sampleEnv (Some ''0x1'')) (selectedWorld ''4'')))) = Some False
   \<and> truthyO (account_address (sampleEnv (Some ''0x1'')))
   \<and> fst (sendTransactionForApproval (sampleEnv (Some ''0x1'')) sampleTx (selectedWorld ''4'')) = Inr ()
   \<and> transactionLoading (state (snd (sendTransactionForApproval (sampleEnv (Some ''0x1'')) sampleTx
        (selectedWorld ''4'')))) = Some False
   \<and> transactionLoading (state (snd (sendTransactionForConvert (sampleEnv (Some ''0x1''))
        (Some sampleTx) (selectedWorld ''4'')))) = Some False
   \<and> \<not> truthyO (account_address (sampleEnv None))
   \<and> transactionLoading (state (snd (sendTransactionForApproval (sampleEnv None) sampleTx
        (selectedWorld ''4'')))) = Some False"
proof -
  have ran: "fst (makeChecks intJs (sampleEnv (Some ''0x1'')) (selectedWorld ''4'')) = Inr True"
    by code_simp
  have some: "truthyO (account_address (sampleEnv (Some ''0x1'')))"
    by (simp add: sampleEnv_def truthyO_def truthyS_def)
  have none: "\<not> truthyO (account_address (sampleEnv None))"
    by (simp add: sampleEnv_def truthyO_def)
  have before: "transactionLoading (state (selectedWorld ''4'')) = Some False"
    by (simp add: selectedWorld_def initialState_def)
  show ?thesis
    using loading_flags_reset [of intJs "sampleEnv (Some ''0x1'')" "selectedWorld ''4''" sampleTx]
      loading_flags_reset [of intJs "sampleEnv None" "selectedWorld ''4''" sampleTx]
      ran some none before
    by simp
qed

text \<open>
  The claim as the specification states it fails: \<open>convertTokens\<close> completes, with
  \<open>makeChecks\<close> run to its end, and \<open>convertLoading\<close> is true.
\<close>

theorem convertLoading_counterexample:
  "fst (convertTokens intJs (sampleEnv (Some ''0x1'')) (selectedWorld ''4'')) = Inr True
   \<and> convertLoading (state (snd (convertTokens intJs (sampleEnv (Some ''0x1'')) (selectedWorld ''4''))))
   \<and> loading (state (snd (convertTokens intJs (sampleEnv (Some ''0x1'')) (selectedWorld ''4''))))
        = Some False
   \<and> \<not> convertLoading (state (selectedWorld ''4''))"
  by code_simp

subsection \<open>Resetting the state\<close>

text \<open>
  Claim C5, as the code has it. After \<open>resetState\<close>, from any state, the two tokens, the
  two prices and the gas price hold their initial values; the two amounts are the string
  \<^verbatim>\<open>'0'\<close>, where the initial state has the empty string; every other field is left as
  it was.
\<close>

theorem resetState_fields:
  "sourceToken (resetState J s) = sourceToken (initialState J)
   \<and> toToken (resetState J s) = toToken (initialState J)
   \<and> sourceTokenPriceInUSD (resetState J s) = sourceTokenPriceInUSD (initialState J)
   \<and> toTokenPriceInUSD (resetState J s) = toTokenPriceInUSD (initialState J)
   \<and> gasPriceInUSD (resetState J s) = gasPriceInUSD (initialState J)
   \<and> sourceTokenAmount (resetState J s) = ''0''
   \<and> toTokenAmount (resetState J s) = ''0''
   \<and> resetState J s =
       s\<lparr> sourceToken := sourceToken (initialState J),
          toToken := toToken (initialState J),
          sourceTokenPriceInUSD := sourceTokenPriceInUSD (initialState J),
          toTokenPriceInUSD := toTokenPriceInUSD (initialState J),
          gasPriceInUSD := gasPriceInUSD (initialState J),
          sourceTokenAmount := ''0'',
          toTokenAmount := ''0'' \<rparr>"
  by (simp add: resetState_def initialState_def)

theorem resetState_fields_witness:
  "sourceToken (resetState intJs (state (selectedWorld ''4''))) = None
   \<and> toToken (resetState intJs (state (selectedWorld ''4''))) = None
   \<and> sourceTokenPriceInUSD (resetState intJs (state (selectedWorld ''4''))) = Some 0
   \<and> sourceTokenAmount (resetState intJs (state (selectedWorld ''4''))) = ''0''
   \<and> tokensPriceMap (resetState intJs (state (selectedWorld ''4''))) ''0xaa'' = Some ''2''"
  using resetState_fields [of intJs "state (selectedWorld ''4'')"]
  by (simp add: selectedWorld_def initialState_def intJs_def)

text \<open>
  The claim as the specification states it fails: after \<open>resetState\<close> the amounts differ
  from those of the initial state.
\<close>

theorem resetState_amounts_counterexample:
  "sourceTokenAmount (resetState intJs (initialState intJs)) \<noteq> sourceTokenAmount (initialState intJs)
   \<and> toTokenAmount (resetState intJs (initialState intJs)) \<noteq> toTokenAmount (initialState intJs)
   \<and> resetState intJs (initialState intJs) \<noteq> initialState intJs"
proof -
  have a: "sourceTokenAmount (resetState intJs (initialState intJs)) = ''0''"
    by (simp add: resetState_def)
  have b: "toTokenAmount (resetState intJs (initialState intJs)) = ''0''"
    by (simp add: resetState_def)
  have c: "sourceTokenAmount (initialState intJs) = []" "toTokenAmount (initialState intJs) = []"
    by (simp_all add: initialState_def)
  have "resetState intJs (initialState intJs) \<noteq> initialState intJs"
  proof
    assume "resetState intJs (initialState intJs) = initialState intJs"
    then have "sourceTokenAmount (resetState intJs (initialState intJs))
                 = sourceTokenAmount (initialState intJs)"
      by simp
    with a c show False by simp
  qed
  with a b c show ?thesis by simp
qed

subsection \<open>Amounts as numeric strings\<close>

lemma parsesAsNumber_zero: "parsesAsNumber ''0''"
  by (simp add: parsesAsNumber_def isStrWhiteSpaceChar_def isDecimalDigit_def)

lemma setSourceTokenAmount_amounts:
  "sourceTokenAmount (state (snd (setSourceTokenAmount E amount w)))
     = (if truthyO (account_address E) then amount else sourceTokenAmount (state w))"
  "toTokenAmount (state (snd (setSourceTokenAmount E amount w))) = toTokenAmount (state w)"
  by (simp_all add: setSourceTokenAmount_def getParams_def proc_defs truthyO_def
        split: option.splits)

text \<open>
  Claim C6, as the code has it. The two setters store their argument as it is, without a
  check: \<open>setToTokenAmount\<close> in \<open>toTokenAmount\<close>, and \<open>setSourceTokenAmount\<close> in
  \<open>sourceTokenAmount\<close> when the account has an address (otherwise it throws before the
  assignment). So they keep both amounts numeric strings when the argument is one and the
  amounts were so before; for \<open>setSourceTokenAmount\<close> also once the balance check it
  left floating has settled.
\<close>

theorem setters_store_amount_verbatim:
  "toTokenAmount (setToTokenAmount amount s) = amount
   \<and> sourceTokenAmount (setToTokenAmount amount s) = sourceTokenAmount s
   \<and> sourceTokenAmount (state (snd (setSourceTokenAmount E amount w)))
        = (if truthyO (account_address E) then amount else sourceTokenAmount (state w))
   \<and> toTokenAmount (state (snd (setSourceTokenAmount E amount w))) = toTokenAmount (state w)
   \<and> (parsesAsNumber amount \<and> amountsNumeric s \<longrightarrow> amountsNumeric (setToTokenAmount amount s))
   \<and> (parsesAsNumber amount \<and> amountsNumeric (state w) \<longrightarrow>
         amountsNumeric (state (snd (setSourceTokenAmount E amount w)))
       \<and> amountsNumeric (state (settle J E (snd (setSourceTokenAmount E amount w)))))"
proof -
  let ?w = "snd (setSourceTokenAmount E amount w)"
  have setTo: "toTokenAmount (setToTokenAmount amount s) = amount"
    "sourceTokenAmount (setToTokenAmount amount s) = sourceTokenAmount s"
    by (simp_all add: setToTokenAmount_def)
  have keepTo: "parsesAsNumber amount \<and> amountsNumeric s \<longrightarrow> amountsNumeric (setToTokenAmount amount s)"
    by (simp add: amountsNumeric_def setTo)
  have keepSource: "amountsNumeric (state ?w)" if "parsesAsNumber amount" "amountsNumeric (state w)"
    using that by (simp add: amountsNumeric_def setSourceTokenAmount_amounts)
  have settled: "amountsNumeric (state (settle J E ?w))" if "amountsNumeric (state ?w)"
    using that settle_frame(3,4) [of J E ?w] parsesAsNumber_zero
    by (auto simp: amountsNumeric_def)
  show ?thesis
    using setTo keepTo keepSource settled
    by (simp add: setSourceTokenAmount_amounts)
qed

theorem setters_store_amount_verbatim_witness:
  "parsesAsNumber ''12.5'' \<and> amountsNumeric (state (selectedWorld ''4'')\<lparr>toTokenAmount := ''7''\<rparr>)
   \<and> truthyO (account_address (sampleEnv (Some ''0x1'')))
   \<and> toTokenAmount (setToTokenAmount ''12.5'' (state (selectedWorld ''4'')\<lparr>toTokenAmount := ''7''\<rparr>)) = ''12.5''
   \<and> amountsNumeric (setToTokenAmount ''12.5'' (state (selectedWorld ''4'')\<lparr>toTokenAmount := ''7''\<rparr>))
   \<and> sourceTokenAmount (state (snd (setSourceTokenAmount (sampleEnv (Some ''0x1'')) ''12.5''
        ((selectedWorld ''4'')\<lparr>state := state (selectedWorld ''4'')\<lparr>toTokenAmount := ''7''\<rparr>\<rparr>)))) = ''12.5''
   \<and> amountsNumeric (state (snd (setSourceTokenAmount (sampleEnv (Some ''0x1'')) ''12.5''
        ((selectedWorld ''4'')\<lparr>state := state (selectedWorld ''4'')\<lparr>toTokenAmount := ''7''\<rparr>\<rparr>))))
   \<and> amountsNumeric (state (settle intJs (sampleEnv (Some ''0x1''))
        (snd (setSourceTokenAmount (sampleEnv (Some ''0x1'')) ''12.5''
        ((selectedWorld ''4'')\<lparr>state := state (selectedWorld ''4'')\<lparr>toTokenAmount := ''7''\<rparr>\<rparr>)))))"
proof -
  have n: "parsesAsNumber ''12.5''"
    by (simp add: parsesAsNumber_def isStrWhiteSpaceChar_def isDecimalDigit_def)
  have i: "amountsNumeric (state (selectedWorld ''4'')\<lparr>toTokenAmount := ''7''\<rparr>)"
    by (simp add: amountsNumeric_def selectedWorld_def parsesAsNumber_def isStrWhiteSpaceChar_def
          isDecimalDigit_def)
  have a: "truthyO (account_address (sampleEnv (Some ''0x1'')))"
    by (simp add: sampleEnv_def truthyO_def truthyS_def)
  show ?thesis
    using setters_store_amount_verbatim
            [of "''12.5''" "state (selectedWorld ''4'')\<lparr>toTokenAmount := ''7''\<rparr>"
                "sampleEnv (Some ''0x1'')"
                "(selectedWorld ''4'')\<lparr>state := state (selectedWorld ''4'')\<lparr>toTokenAmount := ''7''\<rparr>\<rparr>"
                intJs]
          n i a
    by simp
qed

text \<open>
  The claim as the specification states it fails: both setters store a string that is no
  number, and the amounts of the initial state are not numeric either.
\<close>

theorem amounts_numeric_counterexample:
  "\<not> parsesAsNumber (toTokenAmount (setToTokenAmount ''abc'' (initialState intJs)))
   \<and> fst (setSourceTokenAmount (sampleEnv (Some ''0x1'')) ''abc'' (selectedWorld ''4'')) = Inr ()
   \<and> \<not> parsesAsNumber (sourceTokenAmount (state (snd
         (setSourceTokenAmount (sampleEnv (Some ''0x1'')) ''abc'' (selectedWorld ''4'')))))
   \<and> \<not> parsesAsNumber (sourceTokenAmount (initialState intJs))"
proof -
  have abc: "\<not> parsesAsNumber ''abc''"
    by (simp add: parsesAsNumber_def isStrWhiteSpaceChar_def isDecimalDigit_def)
  have empty: "\<not> parsesAsNumber []"
    by (simp add: parsesAsNumber_def)
  have run: "fst (setSourceTokenAmount (sampleEnv (Some ''0x1'')) ''abc'' (selectedWorld ''4'')) = Inr ()"
    by (simp add: setSourceTokenAmount_def getParams_def proc_defs sampleEnv_def truthyS_def
          selectedWorld_def initialWorld_def tokenA_def)
  have stored: "sourceTokenAmount (state (snd
         (setSourceTokenAmount (sampleEnv (Some ''0x1'')) ''abc'' (selectedWorld ''4'')))) = ''abc''"
    by (simp add: setSourceTokenAmount_amounts sampleEnv_def truthyO_def truthyS_def)
  show ?thesis
    using abc empty run stored
    by (simp add: setToTokenAmount_def initialState_def)
qed

subsection \<open>The balances response replaces the price map\<close>

text \<open>
  Claim C7. Whatever \<open>tokensPriceMap\<close> held before, after \<open>getMyTokensWithBalance\<close>
  completes with a response, the map has exactly one entry per returned token, from its
  address (the key of the entry) to its price; every other address, the network token's
  included, has no entry; and \<open>myTokensWithBalance\<close> is the response. The keys of the
  response, an object, are distinct.
\<close>

theorem getMyTokensWithBalance_overwrites_prices:
  assumes api: "api_getMyTokensWithBalance E = Resolves (Some res)"
    and keys: "distinct (map fst res)"
  shows "fst (getMyTokensWithBalance E w) = Inr ()
       \<and> (\<forall>a. tokensPriceMap (state (snd (getMyTokensWithBalance E w))) a
                = map_option price (map_of res a))
       \<and> dom (tokensPriceMap (state (snd (getMyTokensWithBalance E w)))) = fst ` set res
       \<and> (\<forall>(a, t) \<in> set res.
             tokensPriceMap (state (snd (getMyTokensWithBalance E w))) a = Some (price t))
       \<and> (CURRENT_CHAIN_ADDRESS \<notin> fst ` set res \<longrightarrow>
             tokensPriceMap (state (snd (getMyTokensWithBalance E w))) CURRENT_CHAIN_ADDRESS = None)
       \<and> myTokensWithBalance (state (snd (getMyTokensWithBalance E w))) = Some res"
proof -
  let ?m = "\<lambda>a. map_option price (map_of res a)"
  have d: "dom ?m = fst ` set res"
  proof -
    have "dom ?m = dom (map_of res)" by (auto simp: dom_def)
    then show ?thesis by (simp add: dom_map_of_conv_image_fst)
  qed
  have e: "\<forall>(a, t) \<in> set res. ?m a = Some (price t)"
    using keys by auto
  have n: "CURRENT_CHAIN_ADDRESS \<notin> fst ` set res \<longrightarrow> ?m CURRENT_CHAIN_ADDRESS = None"
    by (simp add: map_of_eq_None_iff)
  show ?thesis
    unfolding getMyTokensWithBalance_resolved [OF api keys] using d e n by simp
qed

theorem getMyTokensWithBalance_overwrites_prices_witness:
  "distinct (map fst [(''0xaa'', tokenAWithBalance), (''0xbb'', tokenBWithBalance)])
   \<and> tokensPriceMap (state (selectedWorld ''4'')) ''0xbb'' = Some ''3''
   \<and> tokensPriceMap (state (snd (getMyTokensWithBalance (sampleEnv None)
        (snd (getNetworkTokenPrice (sampleEnv None) (selectedWorld ''4'')))))) ''0xaa'' = Some ''2''
   \<and> tokensPriceMap (state (snd (getMyTokensWithBalance (sampleEnv None)
        (snd (getNetworkTokenPrice (sampleEnv None) (selectedWorld ''4'')))))) ''0xbb'' = Some ''3''
   \<and> tokensPriceMap (state (snd (getNetworkTokenPrice (sampleEnv None) (selectedWorld ''4''))))
        CURRENT_CHAIN_ADDRESS = Some ''0''
   \<and> tokensPriceMap (state (snd (getMyTokensWithBalance (sampleEnv None)
        (snd (getNetworkTokenPrice (sampleEnv None) (selectedWorld ''4'')))))) CURRENT_CHAIN_ADDRESS = None"
proof -
  have api: "api_getMyTokensWithBalance (sampleEnv None)
               = Resolves (Some [(''0xaa'', tokenAWithBalance), (''0xbb'', tokenBWithBalance)])"
    by (simp add: sampleEnv_def)
  have keys: "distinct (map fst [(''0xaa'', tokenAWithBalance), (''0xbb'', tokenBWithBalance)])"
    by simp
  have apiN: "api_getTokenPriceWithAddresses (sampleEnv None) [CURRENT_CHAIN_ADDRESS]
               = Resolves [''0xaa'' \<mapsto> ''2'']"
    by (simp add: sampleEnv_def)
  have chain: "tokensPriceMap (state (snd (getNetworkTokenPrice (sampleEnv None) (selectedWorld ''4''))))
        CURRENT_CHAIN_ADDRESS = Some ''0''"
    by (simp add: getNetworkTokenPrice_resolved [OF apiN] orElse_def CURRENT_CHAIN_ADDRESS_def)
  have before: "tokensPriceMap (state (selectedWorld ''4'')) ''0xbb'' = Some ''3''"
    by (simp add: selectedWorld_def)
  show ?thesis
    using getMyTokensWithBalance_overwrites_prices
            [OF api keys, of "snd (getNetworkTokenPrice (sampleEnv None) (selectedWorld ''4''))"]
          chain before
    by (simp add: tokenAWithBalance_def tokenBWithBalance_def CURRENT_CHAIN_ADDRESS_def)
qed

subsection \<open>Switching the tokens\<close>

lemma setSourceToken_state:
  "state (setSourceToken t w) =
     (case t of None \<Rightarrow> state w | Some tok \<Rightarrow> (state w)\<lparr>sourceToken := Some tok\<rparr>)"
  by (simp add: setSourceToken_def floatCall_def Let_def split: option.splits)

lemma setToToken_tokens:
  "toToken (state (setToToken J t w)) = (case t of None \<Rightarrow> toToken (state w) | Some tok \<Rightarrow> Some tok)"
  "sourceToken (state (setToToken J t w)) = sourceToken (state w)"
  by (simp_all add: setToToken_def floatCall_def Let_def split: option.splits)

text \<open>
  Claim C8. \<open>switchTokens\<close> swaps the two selected tokens, except that a side that is
  absent is not carried over: the source token becomes the old destination token if there
  was one and otherwise stays, and the other way round for the destination token. Both
  amounts are the empty string. This holds when \<open>switchTokens\<close> returns, and the tokens
  and the source amount are still so once the price requests it left floating have settled.
\<close>

theorem switchTokens_swaps:
  "sourceToken (state (switchTokens J w))
      = (case toToken (state w) of None \<Rightarrow> sourceToken (state w) | Some t \<Rightarrow> Some t)
   \<and> toToken (state (switchTokens J w))
      = (case sourceToken (state w) of None \<Rightarrow> toToken (state w) | Some t \<Rightarrow> Some t)
   \<and> sourceTokenAmount (state (switchTokens J w)) = []
   \<and> toTokenAmount (state (switchTokens J w)) = []
   \<and> sourceToken (state (settle J E (switchTokens J w))) = sourceToken (state (switchTokens J w))
   \<and> toToken (state (settle J E (switchTokens J w))) = toToken (state (switchTokens J w))
   \<and> sourceTokenAmount (state (settle J E (switchTokens J w))) = []"
proof -
  have now:
    "sourceToken (state (switchTokens J w))
      = (case toToken (state w) of None \<Rightarrow> sourceToken (state w) | Some t \<Rightarrow> Some t)
     \<and> toToken (state (switchTokens J w))
      = (case sourceToken (state w) of None \<Rightarrow> toToken (state w) | Some t \<Rightarrow> Some t)
     \<and> sourceTokenAmount (state (switchTokens J w)) = []
     \<and> toTokenAmount (state (switchTokens J w)) = []"
    by (simp add: switchTokens_def Let_def setSourceToken_state setToToken_tokens
          split: option.splits)
  then show ?thesis
    by (simp add: settle_frame)
qed

theorem switchTokens_swaps_witness:
  "sourceToken (state (switchTokens intJs (selectedWorld ''4''))) = Some tokenB
   \<and> toToken (state (switchTokens intJs (selectedWorld ''4''))) = Some tokenA
   \<and> sourceTokenAmount (state (switchTokens intJs (selectedWorld ''4''))) = []
   \<and> toTokenAmount (state (switchTokens intJs (selectedWorld ''4''))) = []
   \<and> sourceToken (state (switchTokens intJs (initialWorld intJs
        \<lparr>state := (initialState intJs)\<lparr>sourceToken := Some tokenA\<rparr>\<rparr>))) = Some tokenA
   \<and> toToken (state (switchTokens intJs (initialWorld intJs
        \<lparr>state := (initialState intJs)\<lparr>sourceToken := Some tokenA\<rparr>\<rparr>))) = Some tokenA"
  using switchTokens_swaps [of intJs "selectedWorld ''4''" "sampleEnv None"]
    switchTokens_swaps [of intJs "initialWorld intJs
        \<lparr>state := (initialState intJs)\<lparr>sourceToken := Some tokenA\<rparr>\<rparr>" "sampleEnv None"]
  by (simp add: selectedWorld_def initialState_def)

subsection \<open>The balance check\<close>

text \<open>
  Claim C9. \<open>checkSourceTokenValues\<close>, for an address and an amount: let the balance be
  the balance stored for the address (\<^verbatim>\<open>'0'\<close> when there is none) and the price the one
  \<open>getAddressPrice\<close> gives. The price is stored in \<open>sourceTokenPriceInUSD\<close>. If balance
  times price is less than amount times price, then \<open>inputError\<close> is
  \<^verbatim>\<open>'Insufficient balance'\<close>, \<open>toTokenAmount\<close> is \<^verbatim>\<open>'0'\<close> and \<open>toTokenPriceInUSD\<close> is 0;
  otherwise \<open>inputError\<close> is \<^verbatim>\<open>undefined\<close> and the other two are as they were.
\<close>

theorem checkSourceTokenValues_insufficient_balance:
  assumes fetched: "fst (getAddressPrice J E addr w) = Inr usd"
  shows "let balance = orElse (case myTokensWithBalance (state w) of
                                None \<Rightarrow> None
                              | Some m \<Rightarrow> map_option balance (map_of m addr)) ''0'';
             insufficient = lessThan J (times_n J (parseFloat J balance) usd)
                                       (times_n J (parseFloat J amount) usd);
             s' = state (snd (checkSourceTokenValues J E addr amount w))
         in fst (checkSourceTokenValues J E addr amount w) = Inr ()
          \<and> sourceTokenPriceInUSD s' = usd
          \<and> (insufficient \<longrightarrow> inputError s' = Some ''Insufficient balance''
                \<and> toTokenAmount s' = ''0'' \<and> toTokenPriceInUSD s' = Number J 0)
          \<and> (\<not> insufficient \<longrightarrow> inputError s' = None
                \<and> toTokenAmount s' = toTokenAmount (state w)
                \<and> toTokenPriceInUSD s' = toTokenPriceInUSD (state w))"
proof -
  obtain w1 where g: "getAddressPrice J E addr w = (Inr usd, w1)"
    using fetched by (cases "getAddressPrice J E addr w") simp
  have f: "toTokenAmount (state w1) = toTokenAmount (state w)"
    "toTokenPriceInUSD (state w1) = toTokenPriceInUSD (state w)"
    using getAddressPrice_frame(4,5) [of J E addr w] by (simp_all add: g)
  show ?thesis
    using f by (simp add: checkSourceTokenValues_def andThen_def assign_def return_def Let_def g)
qed

theorem checkSourceTokenValues_insufficient_balance_witness:
  "fst (getAddressPrice intJs (sampleEnv None) ''0xaa'' (selectedWorld ''4'')) = Inr (Some 2)
   \<and> sourceTokenPriceInUSD (state (snd (checkSourceTokenValues intJs (sampleEnv None) ''0xaa'' ''7''
        (selectedWorld ''4'')))) = Some 2
   \<and> inputError (state (snd (checkSourceTokenValues intJs (sampleEnv None) ''0xaa'' ''7''
        (selectedWorld ''4'')))) = Some ''Insufficient balance''
   \<and> toTokenAmount (state (snd (checkSourceTokenValues intJs (sampleEnv None) ''0xaa'' ''7''
        (selectedWorld ''4'')))) = ''0''
   \<and> inputError (state (snd (checkSourceTokenValues intJs (sampleEnv None) ''0xaa'' ''3''
        (selectedWorld ''4'')))) = None
   \<and> toTokenAmount (state (snd (checkSourceTokenValues intJs (sampleEnv None) ''0xaa'' ''3''
        (selectedWorld ''4'')))) = []"
proof -
  have cached: "tokensPriceMap (state (selectedWorld ''4'')) ''0xaa'' = Some ''2''"
    by (simp add: selectedWorld_def)
  have two: "parseFloat intJs ''2'' = Some 2"
    by (simp add: intJs_def digitOf_def)
  have price: "fst (getAddressPrice intJs (sampleEnv None) ''0xaa'' (selectedWorld ''4'')) = Inr (Some 2)"
    by (simp add: getAddressPrice_hit [OF cached] truthyS_def two)
  have bal: "myTokensWithBalance (state (selectedWorld ''4''))
               = Some [(''0xaa'', tokenAWithBalance), (''0xbb'', tokenBWithBalance)]"
    "toTokenAmount (state (selectedWorld ''4'')) = []"
    by (simp_all add: selectedWorld_def initialState_def)
  show ?thesis
    using checkSourceTokenValues_insufficient_balance [OF price, of "''7''"]
      checkSourceTokenValues_insufficient_balance [OF price, of "''3''"] price
    by (simp add: Let_def bal tokenAWithBalance_def orElse_def truthyS_def intJs_def lift2_def
          digitOf_def)
qed

subsection \<open>Initialising once\<close>

lemma initializeState_first:
  assumes fresh: "\<not> initialized (state w)"
    and toks: "api_getTokenList E = Resolves toks"
    and prices: "api_getTokenPriceWithAddresses E [CURRENT_CHAIN_ADDRESS] = Resolves prices"
    and res: "api_getMyTokensWithBalance E = Resolves res"
  shows "fst (initializeState E w) = Inr ()
       \<and> requests (snd (initializeState E w))
           = requests w @ [GetTokenList, GetTokenPriceWithAddresses [CURRENT_CHAIN_ADDRESS],
                           GetMyTokensWithBalance]
       \<and> initialized (state (snd (initializeState E w)))"
proof -
  obtain w1 where 1: "getTokenList E w = (Inr toks, w1)" "requests w1 = requests w @ [GetTokenList]"
    by (simp add: getTokenList_resolved [OF toks])
  obtain w2 where 2: "getNetworkTokenPrice E w1 = (Inr (), w2)"
    "requests w2 = requests w1 @ [GetTokenPriceWithAddresses [CURRENT_CHAIN_ADDRESS]]"
    by (simp add: getNetworkTokenPrice_resolved [OF prices])
  obtain w3 where 3: "getMyTokensWithBalance E w2 = (Inr (), w3)"
    "requests w3 = requests w2 @ [GetMyTokensWithBalance]"
    using getMyTokensWithBalance_requests [OF res, of w2]
    by (cases "getMyTokensWithBalance E w2") simp
  have run: "initializeState E w = (Inr (), w3\<lparr>state := (state w3)\<lparr>initialized := True\<rparr>\<rparr>)"
    using fresh by (simp add: initializeState_def andThen_def assign_def 1(1) 2(1) 3(1))
  show ?thesis
    unfolding run by (simp add: 1(2) 2(2) 3(2))
qed

text \<open>
  Claim C10. \<open>initializeState\<close> does its work once. From a state that is not initialised,
  and with the three requests answered, it asks for the token list, the network token's
  price and the balances, in this order, and sets \<open>initialized\<close>. From a state that is
  initialised it sends no request and changes nothing: the world after the call is the
  world before it. So a second call after a first changes nothing.
\<close>

theorem initializeState_idempotent:
  "(initialized (state w) \<longrightarrow> initializeState E w = (Inr (), w))
   \<and> (\<not> initialized (state w)
        \<and> api_getTokenList E = Resolves toks
        \<and> api_getTokenPriceWithAddresses E [CURRENT_CHAIN_ADDRESS] = Resolves prices
        \<and> api_getMyTokensWithBalance E = Resolves res \<longrightarrow>
          fst (initializeState E w) = Inr ()
        \<and> requests (snd (initializeState E w))
            = requests w @ [GetTokenList, GetTokenPriceWithAddresses [CURRENT_CHAIN_ADDRESS],
                            GetMyTokensWithBalance]
        \<and> initialized (state (snd (initializeState E w)))
        \<and> initializeState E (snd (initializeState E w)) = (Inr (), snd (initializeState E w)))"
proof -
  have again: "initializeState E v = (Inr (), v)" if "initialized (state v)" for v
    using that by (simp add: initializeState_def return_def)
  show ?thesis
    using again [of w] again [of "snd (initializeState E w)"]
      initializeState_first [of w E toks prices res]
    by blast
qed

theorem initializeState_idempotent_witness:
  "\<not> initialized (state (initialWorld intJs))
   \<and> fst (initializeState (sampleEnv None) (initialWorld intJs)) = Inr ()
   \<and> requests (snd (initializeState (sampleEnv None) (initialWorld intJs)))
        = [GetTokenList, GetTokenPriceWithAddresses [CURRENT_CHAIN_ADDRESS], GetMyTokensWithBalance]
   \<and> initialized (state (snd (initializeState (sampleEnv None) (initialWorld intJs))))
   \<and> initializeState (sampleEnv None) (snd (initializeState (sampleEnv None) (initialWorld intJs)))
        = (Inr (), snd (initializeState (sampleEnv None) (initialWorld intJs)))"
proof -
  have fresh: "\<not> initialized (state (initialWorld intJs))" "requests (initialWorld intJs) = []"
    by (simp_all add: initialWorld_def initialState_def)
  have toks: "api_getTokenList (sampleEnv None) = Resolves [(''0xbb'', tokenB), (''0xaa'', tokenA)]"
    and prices: "api_getTokenPriceWithAddresses (sampleEnv None) [CURRENT_CHAIN_ADDRESS]
                   = Resolves [''0xaa'' \<mapsto> ''2'']"
    and res: "api_getMyTokensWithBalance (sampleEnv None)
                = Resolves (Some [(''0xaa'', tokenAWithBalance), (''0xbb'', tokenBWithBalance)])"
    by (simp_all add: sampleEnv_def)
  show ?thesis
    using initializeState_idempotent
            [of "initialWorld intJs" "sampleEnv None" "[(''0xbb'', tokenB), (''0xaa'', tokenA)]"
                "[''0xaa'' \<mapsto> ''2'']"
                "Some [(''0xaa'', tokenAWithBalance), (''0xbb'', tokenBWithBalance)]"]
      initializeState_idempotent
            [of "snd (initializeState (sampleEnv None) (initialWorld intJs))" "sampleEnv None"]
      fresh toks prices res
    by simp
qed

end
